theory Spec2Isabelle
  imports Complex_Main
begin

section \<open>Flight control sample: data model\<close>

text \<open>
  Shallow embedding of \<^verbatim>\<open>sample/linux/flight-control/flight_control_sample.cpp\<close>.

  The C++ \<^verbatim>\<open>float\<close> and \<^verbatim>\<open>double\<close> values are modelled as real numbers: rounding,
  overflow, infinities and NaN are not represented. The exception is the pitch term of
  \<^verbatim>\<open>toEulerAngle\<close>, which is modelled a second time with overflow, infinities and NaN. The C++ \<^verbatim>\<open>int\<close> counters are
  modelled as \<^typ>\<open>int\<close>: each is bounded by the budget of its loop (at most 10000), far
  from the limits of a machine integer.

  Time is a clock in microseconds that starts at 0 when a function is entered. Only
  \<^verbatim>\<open>usleep\<close> and \<^verbatim>\<open>sleep\<close> advance it. A telemetry topic is a function of the
  clock: \<^verbatim>\<open>getValue<TOPIC>()\<close> reads the latest sample at the current clock value, so
  two reads with no sleep between them see the same sample.
\<close>

text \<open>
  Modelled from the spec: the enumerations \<^verbatim>\<open>FlightStatus\<close> and
  \<^verbatim>\<open>VehicleStatus::DisplayMode\<close> are declared in SDK headers that are not part of the
  sources at hand. The constructors are the enumerators that the source file names; any
  other value that telemetry may carry is \<open>STATUS_OTHER n\<close>, respectively
  \<open>MODE_OTHER n\<close>.
\<close>

datatype FlightStatus = ON_GROUND | IN_AIR | STATUS_OTHER nat

datatype DisplayMode =
    MODE_ENGINE_START
  | MODE_ASSISTED_TAKEOFF
  | MODE_AUTO_TAKEOFF
  | MODE_AUTO_LANDING
  | MODE_P_GPS
  | MODE_ATTITUDE
  | MODE_OTHER nat

text \<open>The classification \<^verbatim>\<open>ACK::getError\<close> gives to an acknowledgement.\<close>

datatype Ack = SUCCESS | FAIL

text \<open>
  The four components of an orientation sample. The type of the components is a
  parameter: real numbers where arithmetic is read as exact, and the values of type
  \<open>ieee\<close> below where overflow and NaN matter.
\<close>

record 'a Quaternion =
  q0 :: 'a
  q1 :: 'a
  q2 :: 'a
  q3 :: 'a

record GPSFused =
  longitude :: real
  latitude :: real
  altitude :: real

record Vector3f =
  vec_x :: real
  vec_y :: real
  vec_z :: real

text \<open>
  The vehicle link, as far as the sample observes it: the acknowledgement of each
  request (a function of the timeout passed), and the telemetry topics as functions of
  the clock.
\<close>

record Vehicle =
  subscribe_verify :: "int \<Rightarrow> Ack"
  subscribe_initPackageFromTopicList :: bool
  subscribe_startPackage :: "int \<Rightarrow> Ack"
  subscribe_removePackage :: "int \<Rightarrow> Ack"
  control_takeoff :: "int \<Rightarrow> Ack"
  control_land :: "int \<Rightarrow> Ack"
  TOPIC_STATUS_FLIGHT :: "nat \<Rightarrow> FlightStatus"
  TOPIC_STATUS_DISPLAYMODE :: "nat \<Rightarrow> DisplayMode"
  TOPIC_QUATERNION :: "nat \<Rightarrow> real Quaternion"
  TOPIC_GPS_FUSED :: "nat \<Rightarrow> GPSFused"

text \<open>
  What a function does to the outside world, in order: the requests it sends over the
  link and the lines it prints.
\<close>

datatype Command =
    Verify
  | InitPackageFromTopicList
  | StartPackage
  | RemovePackage
  | Takeoff
  | Land
  | PositionAndYawCtrl real real real real
  | EmergencyBrake
  | Print string

text \<open>
  \<^verbatim>\<open>removePackage\<close> followed by the warning the source prints when its
  acknowledgement is an error (the long form of the cleanup).
\<close>

definition removePackage_checked :: "Vehicle \<Rightarrow> int \<Rightarrow> Command list" where
  "removePackage_checked vehicle timeout =
     (if subscribe_removePackage vehicle timeout \<noteq> SUCCESS
      then [RemovePackage,
            Print ''Error unsubscribing; please restart the drone/FC to get back to a clean state.'']
      else [RemovePackage])"

section \<open>monitoredTakeoff\<close>

text \<open>First check (motors started): the loop of source lines 128-136.\<close>

function takeoff_motors_loop :: "Vehicle \<Rightarrow> int \<Rightarrow> nat \<Rightarrow> int \<Rightarrow> nat \<times> int" where
  "takeoff_motors_loop vehicle timeoutCycles clock motorsNotStarted =
     (if TOPIC_STATUS_FLIGHT vehicle clock \<noteq> ON_GROUND \<and>
         TOPIC_STATUS_DISPLAYMODE vehicle clock \<noteq> MODE_ENGINE_START \<and>
         motorsNotStarted < timeoutCycles
      then takeoff_motors_loop vehicle timeoutCycles (clock + 100000) (motorsNotStarted + 1)
      else (clock, motorsNotStarted))"
  by pat_completeness auto
termination
  by (relation "measure (\<lambda>(v, tc, c, n). nat (tc - n))") auto

declare takeoff_motors_loop.simps [simp del]

text \<open>Second check (in air): the loop of source lines 153-163.\<close>

function takeoff_inair_loop :: "Vehicle \<Rightarrow> int \<Rightarrow> nat \<Rightarrow> int \<Rightarrow> nat \<times> int" where
  "takeoff_inair_loop vehicle timeoutCycles clock stillOnGround =
     (if TOPIC_STATUS_FLIGHT vehicle clock \<noteq> IN_AIR \<and>
         (TOPIC_STATUS_DISPLAYMODE vehicle clock \<noteq> MODE_ASSISTED_TAKEOFF \<or>
          TOPIC_STATUS_DISPLAYMODE vehicle clock \<noteq> MODE_AUTO_TAKEOFF) \<and>
         stillOnGround < timeoutCycles
      then takeoff_inair_loop vehicle timeoutCycles (clock + 100000) (stillOnGround + 1)
      else (clock, stillOnGround))"
  by pat_completeness auto
termination
  by (relation "measure (\<lambda>(v, tc, c, n). nat (tc - n))") auto

declare takeoff_inair_loop.simps [simp del]

text \<open>
  Final check (finished takeoff): the loop of source lines 180-186. It has no cycle
  budget, so it may run forever: the result is \<open>None\<close> then.
\<close>

partial_function (option) takeoff_finish_loop :: "Vehicle \<Rightarrow> nat \<Rightarrow> nat option" where
  "takeoff_finish_loop vehicle clock =
     (if TOPIC_STATUS_DISPLAYMODE vehicle clock = MODE_ASSISTED_TAKEOFF \<or>
         TOPIC_STATUS_DISPLAYMODE vehicle clock = MODE_AUTO_TAKEOFF
      then takeoff_finish_loop vehicle (clock + 1000000)
      else Some clock)"

text \<open>The mode test of source lines 188-191, on the mode read after the loop.\<close>

definition takeoff_mode_ok :: "DisplayMode \<Rightarrow> bool" where
  "takeoff_mode_ok mode = (mode \<noteq> MODE_P_GPS \<or> mode \<noteq> MODE_ATTITUDE)"

text \<open>Source lines 179-212: everything after the two budgeted checks.\<close>

definition takeoff_final :: "Vehicle \<Rightarrow> int \<Rightarrow> nat \<Rightarrow> Command list \<Rightarrow> (bool \<times> Command list) option" where
  "takeoff_final vehicle timeout clock tr =
     (case takeoff_finish_loop vehicle clock of
        None \<Rightarrow> None
      | Some clock' \<Rightarrow>
          if takeoff_mode_ok (TOPIC_STATUS_DISPLAYMODE vehicle clock')
          then Some (True,
                 tr @ [Print ''Successful takeoff!''] @ removePackage_checked vehicle timeout)
          else Some (False,
                 tr @ [Print ''Takeoff finished, but the aircraft is in an unexpected mode. Please connect DJI GO.'',
                       RemovePackage]))"

text \<open>Source lines 125-212: the monitor that runs once the takeoff request is accepted.\<close>

definition takeoff_monitor :: "Vehicle \<Rightarrow> int \<Rightarrow> Command list \<Rightarrow> (bool \<times> Command list) option" where
  "takeoff_monitor vehicle timeout tr =
     (case takeoff_motors_loop vehicle 20 0 0 of (clock1, motorsNotStarted) \<Rightarrow>
        if motorsNotStarted = 20
        then Some (False, tr @ [Print ''Takeoff failed. Motors are not spinning.'', RemovePackage])
        else
          (case takeoff_inair_loop vehicle 110 clock1 0 of (clock2, stillOnGround) \<Rightarrow>
             if stillOnGround = 110
             then Some (False,
                    tr @ [Print ''Motors spinning...'',
                          Print ''Takeoff failed. Aircraft is still on the ground, but the motors are spinning.'',
                          RemovePackage])
             else takeoff_final vehicle timeout clock2
                    (tr @ [Print ''Motors spinning...'', Print ''Ascending...''])))"

text \<open>
  The whole function. The result is \<open>None\<close> when the function never returns, and
  \<open>Some (r, tr)\<close> when it returns \<open>r\<close> after the commands \<open>tr\<close>.
\<close>

definition monitoredTakeoff :: "Vehicle \<Rightarrow> int \<Rightarrow> (bool \<times> Command list) option" where
  "monitoredTakeoff vehicle timeout =
     (if subscribe_verify vehicle timeout \<noteq> SUCCESS then Some (False, [Verify])
      else if \<not> subscribe_initPackageFromTopicList vehicle
      then Some (False, [Verify, InitPackageFromTopicList])
      else if subscribe_startPackage vehicle timeout \<noteq> SUCCESS
      then Some (False, [Verify, InitPackageFromTopicList, StartPackage, RemovePackage])
      else if control_takeoff vehicle timeout \<noteq> SUCCESS
      then Some (False, [Verify, InitPackageFromTopicList, StartPackage, Takeoff])
      else takeoff_monitor vehicle timeout
             [Verify, InitPackageFromTopicList, StartPackage, Takeoff])"

section \<open>monitoredLanding\<close>

text \<open>First check (landing started): the loop of source lines 476-482.\<close>

function landing_start_loop :: "Vehicle \<Rightarrow> int \<Rightarrow> nat \<Rightarrow> int \<Rightarrow> nat \<times> int" where
  "landing_start_loop vehicle timeoutCycles clock landingNotStarted =
     (if TOPIC_STATUS_DISPLAYMODE vehicle clock \<noteq> MODE_AUTO_LANDING \<and>
         landingNotStarted < timeoutCycles
      then landing_start_loop vehicle timeoutCycles (clock + 100000) (landingNotStarted + 1)
      else (clock, landingNotStarted))"
  by pat_completeness auto
termination
  by (relation "measure (\<lambda>(v, tc, c, n). nat (tc - n))") auto

declare landing_start_loop.simps [simp del]

text \<open>Second check (finished landing): the unbudgeted loop of source lines 502-508.\<close>

partial_function (option) landing_finish_loop :: "Vehicle \<Rightarrow> nat \<Rightarrow> nat option" where
  "landing_finish_loop vehicle clock =
     (if TOPIC_STATUS_DISPLAYMODE vehicle clock = MODE_AUTO_LANDING \<and>
         TOPIC_STATUS_FLIGHT vehicle clock = IN_AIR
      then landing_finish_loop vehicle (clock + 1000000)
      else Some clock)"

text \<open>The mode test of source lines 510-513.\<close>

definition landing_mode_ok :: "DisplayMode \<Rightarrow> bool" where
  "landing_mode_ok mode = (mode \<noteq> MODE_P_GPS \<or> mode \<noteq> MODE_ATTITUDE)"

definition landing_final :: "Vehicle \<Rightarrow> int \<Rightarrow> nat \<Rightarrow> Command list \<Rightarrow> (bool \<times> Command list) option" where
  "landing_final vehicle timeout clock tr =
     (case landing_finish_loop vehicle clock of
        None \<Rightarrow> None
      | Some clock' \<Rightarrow>
          if landing_mode_ok (TOPIC_STATUS_DISPLAYMODE vehicle clock')
          then Some (True,
                 tr @ [Print ''Successful landing!''] @ removePackage_checked vehicle timeout)
          else Some (False,
                 tr @ [Print ''Landing finished, but the aircraft is in an unexpected mode. Please connect DJI GO.'']
                    @ removePackage_checked vehicle timeout))"

definition landing_monitor :: "Vehicle \<Rightarrow> int \<Rightarrow> Command list \<Rightarrow> (bool \<times> Command list) option" where
  "landing_monitor vehicle timeout tr =
     (case landing_start_loop vehicle 20 0 0 of (clock1, landingNotStarted) \<Rightarrow>
        if landingNotStarted = 20
        then Some (False,
               tr @ [Print ''Landing failed. Aircraft is still in the air.'']
                  @ removePackage_checked vehicle timeout)
        else landing_final vehicle timeout clock1 (tr @ [Print ''Landing...'']))"

definition monitoredLanding :: "Vehicle \<Rightarrow> int \<Rightarrow> (bool \<times> Command list) option" where
  "monitoredLanding vehicle timeout =
     (if subscribe_verify vehicle timeout \<noteq> SUCCESS then Some (False, [Verify])
      else if \<not> subscribe_initPackageFromTopicList vehicle
      then Some (False, [Verify, InitPackageFromTopicList])
      else if subscribe_startPackage vehicle timeout \<noteq> SUCCESS
      then Some (False, [Verify, InitPackageFromTopicList, StartPackage, RemovePackage])
      else if control_land vehicle timeout \<noteq> SUCCESS
      then Some (False, [Verify, InitPackageFromTopicList, StartPackage, Land])
      else landing_monitor vehicle timeout
             [Verify, InitPackageFromTopicList, StartPackage, Land])"

section \<open>Helper functions\<close>

text \<open>
  The C library functions on real numbers. \<^verbatim>\<open>asin\<close> is \<^const>\<open>arcsin\<close>, which is
  the C function on its domain \<open>[-1, 1]\<close>; \<^verbatim>\<open>cos\<close> is \<^const>\<open>cos\<close>;
  \<^verbatim>\<open>atan2\<close> is the angle of the point \<open>(x, y)\<close> in \<open>(-\<pi>, \<pi>]\<close>.
\<close>

definition atan2 :: "real \<Rightarrow> real \<Rightarrow> real" where
  "atan2 y x =
     (if 0 < x then arctan (y / x)
      else if x < 0 then (if 0 \<le> y then arctan (y / x) + pi else arctan (y / x) - pi)
      else if 0 < y then pi / 2
      else if y < 0 then - (pi / 2)
      else 0)"

text \<open>
  \<^verbatim>\<open>C_EARTH\<close> and \<^verbatim>\<open>DEG2RAD\<close> are macros of the sample's header, which is not part
  of the sources at hand: they are parameters here.
\<close>

definition localOffsetFromGpsOffset :: "real \<Rightarrow> GPSFused \<Rightarrow> GPSFused \<Rightarrow> Vector3f" where
  "localOffsetFromGpsOffset c_earth target origin =
     (let deltaLon = longitude target - longitude origin;
          deltaLat = latitude target - latitude origin
      in \<lparr>vec_x = deltaLat * c_earth,
          vec_y = deltaLon * c_earth * cos (latitude target),
          vec_z = altitude target - altitude origin\<rparr>)"

text \<open>
  The value of \<^verbatim>\<open>t2\<close> that \<^verbatim>\<open>toEulerAngle\<close> passes to \<^verbatim>\<open>asin\<close> (source lines 567-574),
  in exact arithmetic. The next section has the same lines with overflow and NaN; the two
  agree on every quaternion with components of magnitude at most \<open>2 ^ 63\<close>.
\<close>

definition toEulerAngle_t2 :: "real Quaternion \<Rightarrow> real" where
  "toEulerAngle_t2 quaternionData =
     (let t2 = - 2.0 * (q1 quaternionData * q3 quaternionData -
                        q0 quaternionData * q2 quaternionData);
          t2 = (if t2 > 1.0 then 1.0 else t2);
          t2 = (if t2 < - 1.0 then - 1.0 else t2)
      in t2)"

definition toEulerAngle :: "real Quaternion \<Rightarrow> Vector3f" where
  "toEulerAngle quaternionData =
     (let q2sqr = q2 quaternionData * q2 quaternionData;
          t0 = - 2.0 * (q2sqr + q3 quaternionData * q3 quaternionData) + 1.0;
          t1 = 2.0 * (q1 quaternionData * q2 quaternionData +
                      q0 quaternionData * q3 quaternionData);
          t2 = toEulerAngle_t2 quaternionData;
          t3 = 2.0 * (q2 quaternionData * q3 quaternionData +
                      q0 quaternionData * q1 quaternionData);
          t4 = - 2.0 * (q1 quaternionData * q1 quaternionData + q2sqr) + 1.0
      in \<lparr>vec_x = arcsin t2, vec_y = atan2 t3 t4, vec_z = atan2 t1 t0\<rparr>)"

section \<open>The pitch term with overflow and NaN\<close>

text \<open>
  The quaternion components are \<^verbatim>\<open>float32_t\<close>, so the products and the difference in
  the pitch term are computed in single precision, and \<^verbatim>\<open>t2\<close> in double precision.
  Here these values are finite real numbers, the two infinities or NaN. An operation on
  finite values gives the exact result if that is below the magnitude at which the format
  rounds to infinity (\<open>2 ^ 128 - 2 ^ 103\<close> in single and \<open>2 ^ 1024 - 2 ^ 970\<close> in double
  precision), and the infinity of its sign otherwise; the rounding of finite results
  and the sign of zero are not represented. Infinities and NaN follow the rules of
  IEEE 754: infinity minus infinity and zero times infinity are NaN, NaN propagates, and
  every comparison with NaN is false.
\<close>

datatype ieee = Finite real | PlusInf | MinusInf | NaN

definition FLT_LIMIT :: real where "FLT_LIMIT = 2 ^ 128 - 2 ^ 103"

definition DBL_LIMIT :: real where "DBL_LIMIT = 2 ^ 1024 - 2 ^ 970"

text \<open>The exact result \<open>r\<close> as delivered in a format that overflows at \<open>limit\<close>.\<close>

definition deliver :: "real \<Rightarrow> real \<Rightarrow> ieee" where
  "deliver limit r =
     (if limit \<le> r then PlusInf else if r \<le> - limit then MinusInf else Finite r)"

fun ieee_mul :: "real \<Rightarrow> ieee \<Rightarrow> ieee \<Rightarrow> ieee" where
  "ieee_mul limit NaN _ = NaN"
| "ieee_mul limit _ NaN = NaN"
| "ieee_mul limit (Finite a) (Finite b) = deliver limit (a * b)"
| "ieee_mul limit (Finite a) PlusInf =
     (if a = 0 then NaN else if 0 < a then PlusInf else MinusInf)"
| "ieee_mul limit (Finite a) MinusInf =
     (if a = 0 then NaN else if 0 < a then MinusInf else PlusInf)"
| "ieee_mul limit PlusInf (Finite b) =
     (if b = 0 then NaN else if 0 < b then PlusInf else MinusInf)"
| "ieee_mul limit MinusInf (Finite b) =
     (if b = 0 then NaN else if 0 < b then MinusInf else PlusInf)"
| "ieee_mul limit PlusInf PlusInf = PlusInf"
| "ieee_mul limit PlusInf MinusInf = MinusInf"
| "ieee_mul limit MinusInf PlusInf = MinusInf"
| "ieee_mul limit MinusInf MinusInf = PlusInf"

fun ieee_sub :: "real \<Rightarrow> ieee \<Rightarrow> ieee \<Rightarrow> ieee" where
  "ieee_sub limit NaN _ = NaN"
| "ieee_sub limit _ NaN = NaN"
| "ieee_sub limit (Finite a) (Finite b) = deliver limit (a - b)"
| "ieee_sub limit (Finite a) PlusInf = MinusInf"
| "ieee_sub limit (Finite a) MinusInf = PlusInf"
| "ieee_sub limit PlusInf PlusInf = NaN"
| "ieee_sub limit PlusInf _ = PlusInf"
| "ieee_sub limit MinusInf MinusInf = NaN"
| "ieee_sub limit MinusInf _ = MinusInf"

fun ieee_gt :: "ieee \<Rightarrow> ieee \<Rightarrow> bool" where
  "ieee_gt NaN _ = False"
| "ieee_gt _ NaN = False"
| "ieee_gt (Finite a) (Finite b) = (a > b)"
| "ieee_gt (Finite a) PlusInf = False"
| "ieee_gt (Finite a) MinusInf = True"
| "ieee_gt PlusInf PlusInf = False"
| "ieee_gt PlusInf _ = True"
| "ieee_gt MinusInf _ = False"

definition ieee_lt :: "ieee \<Rightarrow> ieee \<Rightarrow> bool" where
  "ieee_lt a b = ieee_gt b a"

text \<open>
  The C library's \<^verbatim>\<open>asin\<close>: the arc sine on \<open>[-1, 1]\<close>, and NaN for every other
  argument, NaN included.
\<close>

fun c_asin :: "ieee \<Rightarrow> ieee" where
  "c_asin (Finite x) = (if - 1 \<le> x \<and> x \<le> 1 then Finite (arcsin x) else NaN)"
| "c_asin _ = NaN"

text \<open>The conversion of a double to \<^verbatim>\<open>float32_t\<close>, as in the assignment to \<^verbatim>\<open>ans.x\<close>.\<close>

fun double_to_float :: "ieee \<Rightarrow> ieee" where
  "double_to_float (Finite r) = deliver FLT_LIMIT r"
| "double_to_float v = v"

text \<open>
  Source lines 567-574 again, on these values: two single precision products, their
  single precision difference, the double precision product with \<^verbatim>\<open>-2.0\<close>, and the two
  conditional expressions of the clamp.
\<close>

definition toEulerAngle_t2_ieee :: "ieee Quaternion \<Rightarrow> ieee" where
  "toEulerAngle_t2_ieee quaternionData =
     (let t2 = ieee_mul DBL_LIMIT (Finite (- 2.0))
                 (ieee_sub FLT_LIMIT
                    (ieee_mul FLT_LIMIT (q1 quaternionData) (q3 quaternionData))
                    (ieee_mul FLT_LIMIT (q0 quaternionData) (q2 quaternionData)));
          t2 = (if ieee_gt t2 (Finite 1.0) then Finite 1.0 else t2);
          t2 = (if ieee_lt t2 (Finite (- 1.0)) then Finite (- 1.0) else t2)
      in t2)"

text \<open>Source line 576: the value stored in \<^verbatim>\<open>ans.x\<close>.\<close>

definition toEulerAngle_x_ieee :: "ieee Quaternion \<Rightarrow> ieee" where
  "toEulerAngle_x_ieee quaternionData = double_to_float (c_asin (toEulerAngle_t2_ieee quaternionData))"

section \<open>moveByPositionOffset\<close>

text \<open>
  The arguments of \<^verbatim>\<open>moveByPositionOffset\<close>, together with the two header macros it
  uses.
\<close>

record MoveArgs =
  DEG2RAD :: real
  C_EARTH :: real
  vehicle :: Vehicle
  xOffsetDesired :: real
  yOffsetDesired :: real
  zOffsetDesired :: real
  yawDesired :: real
  posThresholdInM :: real
  yawThresholdInDeg :: real

text \<open>The local constants of source lines 231-236, 303 and 308.\<close>

definition responseTimeout :: int where "responseTimeout = 1"
definition timeoutInMilSec :: int where "timeoutInMilSec = 10000"
definition controlFreqInHz :: int where "controlFreqInHz = 50"
definition cycleTimeInMs :: int where "cycleTimeInMs = 1000 div controlFreqInHz"
definition outOfControlBoundsTimeLimit :: int where
  "outOfControlBoundsTimeLimit = 10 * cycleTimeInMs"
definition withinControlBoundsTimeReqmt :: int where
  "withinControlBoundsTimeReqmt = 50 * cycleTimeInMs"
definition speedFactor :: int where "speedFactor = 2"
definition zDeadband :: real where "zDeadband = 0.12"

text \<open>The locals that are set once before the loop (source lines 277-279, 291-292, 331).\<close>

definition originGPS :: "MoveArgs \<Rightarrow> GPSFused" where
  "originGPS args = TOPIC_GPS_FUSED (vehicle args) 1000000"

definition yawDesiredRad :: "MoveArgs \<Rightarrow> real" where
  "yawDesiredRad args = DEG2RAD args * yawDesired args"

definition yawThresholdInRad :: "MoveArgs \<Rightarrow> real" where
  "yawThresholdInRad args = DEG2RAD args * yawThresholdInDeg args"

definition zCmd :: "MoveArgs \<Rightarrow> real" where
  "zCmd args = altitude (originGPS args) + zOffsetDesired args"

text \<open>The initial x and y commands (source lines 315-329).\<close>

definition initial_xCmd :: "MoveArgs \<Rightarrow> real" where
  "initial_xCmd args =
     (if xOffsetDesired args > 0
      then (if xOffsetDesired args < real_of_int speedFactor
            then xOffsetDesired args else real_of_int speedFactor)
      else if xOffsetDesired args < 0
      then (if xOffsetDesired args > real_of_int (- 1 * speedFactor)
            then xOffsetDesired args else real_of_int (- 1 * speedFactor))
      else 0)"

definition initial_yCmd :: "MoveArgs \<Rightarrow> real" where
  "initial_yCmd args =
     (if yOffsetDesired args > 0
      then (if yOffsetDesired args < real_of_int speedFactor
            then yOffsetDesired args else real_of_int speedFactor)
      else if yOffsetDesired args < 0
      then (if yOffsetDesired args > real_of_int (- 1 * speedFactor)
            then yOffsetDesired args else real_of_int (- 1 * speedFactor))
      else 0)"

text \<open>The locals that the control loop and the brake loop change.\<close>

record ControlState =
  clock :: nat
  elapsedTimeInMs :: int
  withinBoundsCounter :: int
  outOfBounds :: int
  brakeCounter :: int
  xCmd :: real
  yCmd :: real
  yawInRad :: real
  trace :: "Command list"

text \<open>
  The state on entry to the control loop (source lines 273-331), after the subscription
  has started and \<^verbatim>\<open>sleep(1)\<close> has passed.
\<close>

definition initial_state :: "MoveArgs \<Rightarrow> ControlState" where
  "initial_state args =
     \<lparr>clock = 1000000,
      elapsedTimeInMs = 0,
      withinBoundsCounter = 0,
      outOfBounds = 0,
      brakeCounter = 0,
      xCmd = initial_xCmd args,
      yCmd = initial_yCmd args,
      yawInRad = vec_z (toEulerAngle (TOPIC_QUATERNION (vehicle args) 1000000)) / DEG2RAD args,
      trace = [Verify, InitPackageFromTopicList, StartPackage]\<rparr>"

text \<open>The remaining offsets at a clock value (source lines 346-352).\<close>

definition offsetRemaining :: "MoveArgs \<Rightarrow> nat \<Rightarrow> real \<times> real \<times> real" where
  "offsetRemaining args t =
     (let currentGPS = TOPIC_GPS_FUSED (vehicle args) t;
          localOffset = localOffsetFromGpsOffset (C_EARTH args) currentGPS (originGPS args)
      in (xOffsetDesired args - vec_x localOffset,
          yOffsetDesired args - vec_y localOffset,
          zOffsetDesired args - (- vec_z localOffset)))"

text \<open>The convergence test of source lines 360-363.\<close>

definition withinBounds :: "MoveArgs \<Rightarrow> real \<times> real \<times> real \<Rightarrow> real \<Rightarrow> bool" where
  "withinBounds args rem yaw =
     (case rem of (xOffsetRemaining, yOffsetRemaining, zOffsetRemaining) \<Rightarrow>
        \<bar>xOffsetRemaining\<bar> < posThresholdInM args \<and>
        \<bar>yOffsetRemaining\<bar> < posThresholdInM args \<and>
        \<bar>zOffsetRemaining\<bar> < zDeadband \<and>
        \<bar>yaw - yawDesiredRad args\<bar> < yawThresholdInRad args)"

text \<open>Steps 1 and 2 of the counter update (source lines 360-375).\<close>

definition accumulate :: "bool \<Rightarrow> ControlState \<Rightarrow> ControlState" where
  "accumulate inBounds s =
     (if inBounds
      then s\<lparr>withinBoundsCounter := withinBoundsCounter s + cycleTimeInMs\<rparr>
      else if withinBoundsCounter s \<noteq> 0
      then s\<lparr>outOfBounds := outOfBounds s + cycleTimeInMs\<rparr>
      else s)"

text \<open>Step 3 of the counter update (source lines 377-381).\<close>

definition reset_if_necessary :: "ControlState \<Rightarrow> ControlState" where
  "reset_if_necessary s =
     (if outOfBounds s > outOfControlBoundsTimeLimit
      then s\<lparr>withinBoundsCounter := 0, outOfBounds := 0\<rparr>
      else s)"

text \<open>The setpoint update of source lines 355-358.\<close>

definition modify_setpoint :: "real \<times> real \<times> real \<Rightarrow> ControlState \<Rightarrow> ControlState" where
  "modify_setpoint rem s =
     (case rem of (xOffsetRemaining, yOffsetRemaining, zOffsetRemaining) \<Rightarrow>
        s\<lparr>xCmd := (if \<bar>xOffsetRemaining\<bar> < real_of_int speedFactor
                    then xOffsetRemaining else xCmd s),
          yCmd := (if \<bar>yOffsetRemaining\<bar> < real_of_int speedFactor
                    then yOffsetRemaining else yCmd s)\<rparr>)"

text \<open>
  The first part of the body of the control loop (source lines 337-363): send the
  command, sleep one cycle, read the telemetry, modify the setpoint and evaluate the
  convergence test. The result is the state and the outcome of the test.
\<close>

definition control_sense :: "MoveArgs \<Rightarrow> ControlState \<Rightarrow> ControlState \<times> bool" where
  "control_sense args s =
     (let s1 = s\<lparr>trace := trace s @
                   [PositionAndYawCtrl (xCmd s) (yCmd s) (zCmd args)
                      (yawDesiredRad args / DEG2RAD args)],
                 clock := clock s + nat (cycleTimeInMs * 1000),
                 elapsedTimeInMs := elapsedTimeInMs s + cycleTimeInMs\<rparr>;
          s2 = s1\<lparr>yawInRad := vec_z (toEulerAngle (TOPIC_QUATERNION (vehicle args) (clock s1)))\<rparr>;
          rem = offsetRemaining args (clock s2);
          s3 = modify_setpoint rem s2
      in (s3, withinBounds args rem (yawInRad s3)))"

text \<open>
  One pass through the body of the control loop, up to the test of step 4 (source
  lines 337-381).
\<close>

definition control_step :: "MoveArgs \<Rightarrow> ControlState \<Rightarrow> ControlState" where
  "control_step args s =
     (case control_sense args s of (s3, inBounds) \<Rightarrow>
        reset_if_necessary (accumulate inBounds s3))"

text \<open>The control loop (source lines 334-387).\<close>

function control_loop :: "MoveArgs \<Rightarrow> ControlState \<Rightarrow> ControlState" where
  "control_loop args s =
     (if elapsedTimeInMs s < timeoutInMilSec
      then (if withinBoundsCounter (control_step args s) \<ge> withinControlBoundsTimeReqmt
            then control_step args s
            else control_loop args (control_step args s))
      else s)"
  by pat_completeness auto
termination
  by (relation "measure (\<lambda>(args, s). nat (timeoutInMilSec - elapsedTimeInMs s))")
     (auto simp: control_step_def control_sense_def Let_def reset_if_necessary_def
        accumulate_def modify_setpoint_def cycleTimeInMs_def controlFreqInHz_def
        split: prod.splits)

declare control_loop.simps [simp del]

text \<open>The brake loop (source lines 392-397).\<close>

function brake_loop :: "ControlState \<Rightarrow> ControlState" where
  "brake_loop s =
     (if brakeCounter s < withinControlBoundsTimeReqmt
      then brake_loop (s\<lparr>trace := trace s @ [EmergencyBrake],
                         clock := clock s + nat cycleTimeInMs,
                         brakeCounter := brakeCounter s + cycleTimeInMs\<rparr>)
      else s)"
  by pat_completeness auto
termination
  by (relation "measure (\<lambda>s. nat (withinControlBoundsTimeReqmt - brakeCounter s))")
     (auto simp: cycleTimeInMs_def controlFreqInHz_def)

declare brake_loop.simps [simp del]

text \<open>
  What \<^verbatim>\<open>moveByPositionOffset\<close> returns: the function's type is \<^verbatim>\<open>int\<close>, and it
  returns \<^verbatim>\<open>false\<close>, \<^verbatim>\<open>ACK::FAIL\<close> or \<^verbatim>\<open>ACK::SUCCESS\<close>. The two
  \<^verbatim>\<open>ACK\<close> constants are declared in an SDK header, so the three are kept apart.
\<close>

datatype MoveReturn = ReturnFalse | ReturnAck Ack

text \<open>Source lines 389-419: the brake loop and the two ways out.\<close>

definition move_finish :: "MoveArgs \<Rightarrow> ControlState \<Rightarrow> MoveReturn \<times> Command list" where
  "move_finish args s =
     (let s' = brake_loop s in
      if elapsedTimeInMs s' \<ge> timeoutInMilSec
      then (ReturnAck FAIL,
            trace s' @ [Print ''Task timeout!'']
              @ removePackage_checked (vehicle args) responseTimeout)
      else (ReturnAck SUCCESS,
            trace s' @ removePackage_checked (vehicle args) responseTimeout))"

definition moveByPositionOffset :: "MoveArgs \<Rightarrow> MoveReturn \<times> Command list" where
  "moveByPositionOffset args =
     (if subscribe_verify (vehicle args) responseTimeout \<noteq> SUCCESS
      then (ReturnFalse, [Verify])
      else if \<not> subscribe_initPackageFromTopicList (vehicle args)
      then (ReturnFalse, [Verify, InitPackageFromTopicList])
      else if subscribe_startPackage (vehicle args) responseTimeout \<noteq> SUCCESS
      then (ReturnFalse, [Verify, InitPackageFromTopicList, StartPackage, RemovePackage])
      else move_finish args (control_loop args (initial_state args)))"

section \<open>Example vehicles\<close>

text \<open>
  A vehicle that accepts every request, with the given flight status and display mode
  streams; it reports the identity orientation and a fixed position.
\<close>

definition status_vehicle :: "(nat \<Rightarrow> FlightStatus) \<Rightarrow> (nat \<Rightarrow> DisplayMode) \<Rightarrow> Vehicle" where
  "status_vehicle fs dm =
     \<lparr>subscribe_verify = (\<lambda>_. SUCCESS),
      subscribe_initPackageFromTopicList = True,
      subscribe_startPackage = (\<lambda>_. SUCCESS),
      subscribe_removePackage = (\<lambda>_. SUCCESS),
      control_takeoff = (\<lambda>_. SUCCESS),
      control_land = (\<lambda>_. SUCCESS),
      TOPIC_STATUS_FLIGHT = fs,
      TOPIC_STATUS_DISPLAYMODE = dm,
      TOPIC_QUATERNION = (\<lambda>_. \<lparr>q0 = 1, q1 = 0, q2 = 0, q3 = 0\<rparr>),
      TOPIC_GPS_FUSED = (\<lambda>_. \<lparr>longitude = 0, latitude = 0, altitude = 0\<rparr>)\<rparr>"

text \<open>
  A takeoff that goes through engine start (0.3 s) and automatic takeoff (until 2 s) and
  then settles in a mode that is neither P-GPS nor attitude.
\<close>

definition takeoff_to_other_mode :: Vehicle where
  "takeoff_to_other_mode =
     status_vehicle
       (\<lambda>t. if t < 300000 then ON_GROUND else IN_AIR)
       (\<lambda>t. if t < 300000 then MODE_ENGINE_START
            else if t < 2000000 then MODE_AUTO_TAKEOFF
            else MODE_OTHER 17)"

text \<open>
  A landing that enters automatic landing after 0.2 s, touches down at 3 s and then
  settles in a mode that is neither P-GPS nor attitude.
\<close>

definition landing_to_other_mode :: Vehicle where
  "landing_to_other_mode =
     status_vehicle
       (\<lambda>t. if t < 3000000 then IN_AIR else ON_GROUND)
       (\<lambda>t. if t < 200000 then MODE_P_GPS
            else if t < 3000000 then MODE_AUTO_LANDING
            else MODE_OTHER 17)"

text \<open>A vehicle that starts the subscription and then rejects both takeoff and landing.\<close>

definition rejecting_vehicle :: Vehicle where
  "rejecting_vehicle =
     (status_vehicle (\<lambda>t. ON_GROUND) (\<lambda>t. MODE_P_GPS))
       \<lparr>control_takeoff := (\<lambda>_. FAIL), control_land := (\<lambda>_. FAIL)\<rparr>"

text \<open>
  Three vehicles for the first check of the takeoff: one whose motors never start (flight
  status stays at a value other than on-ground and in-air), one that stays on the ground
  for 2.5 s (26 polls) and is in the air after that, and one that stays on the ground for
  ever. All three report the display mode P-GPS throughout.
\<close>

definition motors_off :: Vehicle where
  "motors_off = status_vehicle (\<lambda>t. STATUS_OTHER 0) (\<lambda>t. MODE_P_GPS)"

definition stuck_then_airborne :: Vehicle where
  "stuck_then_airborne =
     status_vehicle (\<lambda>t. if t \<le> 2500000 then ON_GROUND else IN_AIR) (\<lambda>t. MODE_P_GPS)"

definition stuck_on_ground :: Vehicle where
  "stuck_on_ground = status_vehicle (\<lambda>t. ON_GROUND) (\<lambda>t. MODE_P_GPS)"

text \<open>
  A vehicle that accepts every request and reports the given orientation and position
  streams.
\<close>

definition telemetry_vehicle :: "(nat \<Rightarrow> real Quaternion) \<Rightarrow> (nat \<Rightarrow> GPSFused) \<Rightarrow> Vehicle" where
  "telemetry_vehicle q gps =
     \<lparr>subscribe_verify = (\<lambda>_. SUCCESS),
      subscribe_initPackageFromTopicList = True,
      subscribe_startPackage = (\<lambda>_. SUCCESS),
      subscribe_removePackage = (\<lambda>_. SUCCESS),
      control_takeoff = (\<lambda>_. SUCCESS),
      control_land = (\<lambda>_. SUCCESS),
      TOPIC_STATUS_FLIGHT = (\<lambda>_. IN_AIR),
      TOPIC_STATUS_DISPLAYMODE = (\<lambda>_. MODE_P_GPS),
      TOPIC_QUATERNION = q,
      TOPIC_GPS_FUSED = gps\<rparr>"

text \<open>
  Arguments for \<open>moveByPositionOffset\<close>. The two macros are given the earth radius in
  metres and the value of \<open>\<pi> / 180\<close> to eleven places.
  \<open>hover_args\<close>: the goal is the starting point and the vehicle stays there.
  \<open>stationary_args\<close>: the goal is 6 m east and 6 m up with a yaw of 30 degrees, and the
  vehicle never moves. \<open>excursion_args\<close>: the goal is the starting point; the vehicle is
  there for the first cycle and 1 m higher from the second cycle on.
\<close>

definition hover_args :: MoveArgs where
  "hover_args =
     \<lparr>DEG2RAD = 0.01745329252,
      C_EARTH = 6378137,
      vehicle = telemetry_vehicle
        (\<lambda>t. \<lparr>q0 = 1, q1 = 0, q2 = 0, q3 = 0\<rparr>)
        (\<lambda>t. \<lparr>longitude = 0, latitude = 0, altitude = 0\<rparr>),
      xOffsetDesired = 0,
      yOffsetDesired = 0,
      zOffsetDesired = 0,
      yawDesired = 0,
      posThresholdInM = 0.2,
      yawThresholdInDeg = 1\<rparr>"

definition stationary_args :: MoveArgs where
  "stationary_args =
     \<lparr>DEG2RAD = 0.01745329252,
      C_EARTH = 6378137,
      vehicle = telemetry_vehicle
        (\<lambda>t. \<lparr>q0 = 1, q1 = 0, q2 = 0, q3 = 0\<rparr>)
        (\<lambda>t. \<lparr>longitude = 0, latitude = 0, altitude = 0\<rparr>),
      xOffsetDesired = 0,
      yOffsetDesired = 6,
      zOffsetDesired = 6,
      yawDesired = 30,
      posThresholdInM = 0.2,
      yawThresholdInDeg = 1\<rparr>"

definition excursion_args :: MoveArgs where
  "excursion_args =
     \<lparr>DEG2RAD = 0.01745329252,
      C_EARTH = 6378137,
      vehicle = telemetry_vehicle
        (\<lambda>t. \<lparr>q0 = 1, q1 = 0, q2 = 0, q3 = 0\<rparr>)
        (\<lambda>t. \<lparr>longitude = 0, latitude = 0, altitude = (if t \<le> 1020000 then 0 else 1)\<rparr>),
      xOffsetDesired = 0,
      yOffsetDesired = 0,
      zOffsetDesired = 0,
      yawDesired = 0,
      posThresholdInM = 0.2,
      yawThresholdInDeg = 1\<rparr>"

text \<open>
  \<open>rediverge_args\<close>: the goal is 5 m north; the vehicle is 4 m north of the start at
  the first cycle and back at the start at every other time.
\<close>

definition rediverge_args :: MoveArgs where
  "rediverge_args =
     \<lparr>DEG2RAD = 0.01745329252,
      C_EARTH = 6378137,
      vehicle = telemetry_vehicle
        (\<lambda>t. \<lparr>q0 = 1, q1 = 0, q2 = 0, q3 = 0\<rparr>)
        (\<lambda>t. \<lparr>longitude = 0,
              latitude = (if t = 1020000 then 4 / 6378137 else 0),
              altitude = 0\<rparr>),
      xOffsetDesired = 5,
      yOffsetDesired = 0,
      zOffsetDesired = 0,
      yawDesired = 0,
      posThresholdInM = 0.2,
      yawThresholdInDeg = 1\<rparr>"

section \<open>The final mode check of takeoff and landing\<close>

lemmas status_loop_simps =
  takeoff_motors_loop.simps takeoff_inair_loop.simps takeoff_finish_loop.simps
  landing_start_loop.simps landing_finish_loop.simps

lemma takeoff_mode_ok_always: "takeoff_mode_ok mode"
  by (cases mode) (simp_all add: takeoff_mode_ok_def)

lemma landing_mode_ok_always: "landing_mode_ok mode"
  by (cases mode) (simp_all add: landing_mode_ok_def)

text \<open>
  C1. The claim: once the transition modes clear, takeoff and landing succeed only if
  the settled display mode is P-GPS or attitude, and otherwise report the unexpected
  mode and return false. The code does otherwise: on \<open>takeoff_to_other_mode\<close> the
  takeoff loop ends at 2.3 s with the display mode \<open>MODE_OTHER 17\<close>, and
  \<open>monitoredTakeoff\<close> prints the success line and returns true; on
  \<open>landing_to_other_mode\<close> the landing loop ends at 3.2 s in the same mode, and
  \<open>monitoredLanding\<close> prints the success line and returns true.
\<close>

theorem settled_mode_check_accepts_other_mode:
  "takeoff_finish_loop takeoff_to_other_mode 300000 = Some 2300000 \<and>
   TOPIC_STATUS_DISPLAYMODE takeoff_to_other_mode 2300000 = MODE_OTHER 17 \<and>
   monitoredTakeoff takeoff_to_other_mode 1 =
     Some (True, [Verify, InitPackageFromTopicList, StartPackage, Takeoff,
                  Print ''Motors spinning...'', Print ''Ascending...'',
                  Print ''Successful takeoff!'', RemovePackage]) \<and>
   landing_finish_loop landing_to_other_mode 200000 = Some 3200000 \<and>
   TOPIC_STATUS_DISPLAYMODE landing_to_other_mode 3200000 = MODE_OTHER 17 \<and>
   monitoredLanding landing_to_other_mode 1 =
     Some (True, [Verify, InitPackageFromTopicList, StartPackage, Land,
                  Print ''Landing...'', Print ''Successful landing!'', RemovePackage])"
  by (simp add: monitoredTakeoff_def takeoff_monitor_def takeoff_final_def takeoff_mode_ok_def
      monitoredLanding_def landing_monitor_def landing_final_def landing_mode_ok_def
      removePackage_checked_def takeoff_to_other_mode_def landing_to_other_mode_def
      status_vehicle_def status_loop_simps)

section \<open>Removal of the subscription package\<close>

text \<open>
  C3. The claim: once the telemetry package has been started, every exit path of the
  three operations removes it. The code does otherwise where the takeoff or the landing
  request is rejected: on \<open>rejecting_vehicle\<close> both functions return false right after
  the rejected request, and the package they started is never removed.
\<close>

theorem rejected_actuation_leaves_package:
  "monitoredTakeoff rejecting_vehicle 1 =
     Some (False, [Verify, InitPackageFromTopicList, StartPackage, Takeoff]) \<and>
   monitoredLanding rejecting_vehicle 1 =
     Some (False, [Verify, InitPackageFromTopicList, StartPackage, Land]) \<and>
   RemovePackage \<notin> set [Verify, InitPackageFromTopicList, StartPackage, Takeoff] \<and>
   RemovePackage \<notin> set [Verify, InitPackageFromTopicList, StartPackage, Land]"
  by (simp add: monitoredTakeoff_def monitoredLanding_def rejecting_vehicle_def
      status_vehicle_def)

section \<open>The first check of the takeoff\<close>

lemma motors_loop_exhausted:
  "n \<le> tc \<Longrightarrow>
   (snd (takeoff_motors_loop v tc c n) = tc) =
   (\<forall>j::nat. int j < tc - n \<longrightarrow>
      (TOPIC_STATUS_FLIGHT v (c + j * 100000) \<noteq> ON_GROUND \<and>
       TOPIC_STATUS_DISPLAYMODE v (c + j * 100000) \<noteq> MODE_ENGINE_START))"
proof (induction v tc c n rule: takeoff_motors_loop.induct)
  case (1 v tc c n)
  let ?P = "\<lambda>t. TOPIC_STATUS_FLIGHT v t \<noteq> ON_GROUND \<and> TOPIC_STATUS_DISPLAYMODE v t \<noteq> MODE_ENGINE_START"
  show ?case
  proof (cases "?P c \<and> n < tc")
    case True
    then have step: "takeoff_motors_loop v tc c n = takeoff_motors_loop v tc (c + 100000) (n + 1)"
      by (simp add: takeoff_motors_loop.simps [of v tc c n])
    have ih: "(snd (takeoff_motors_loop v tc (c + 100000) (n + 1)) = tc) =
          (\<forall>j::nat. int j < tc - (n + 1) \<longrightarrow> ?P (c + 100000 + j * 100000))"
      using "1.IH" True by simp
    have "(\<forall>j::nat. int j < tc - (n + 1) \<longrightarrow> ?P (c + 100000 + j * 100000)) =
          (\<forall>j::nat. int j < tc - n \<longrightarrow> ?P (c + j * 100000))" (is "?L = ?R")
    proof
      assume L: ?L
      show ?R
      proof (intro allI impI)
        fix j :: nat assume j: "int j < tc - n"
        show "?P (c + j * 100000)"
        proof (cases j)
          case 0
          then show ?thesis using True by simp
        next
          case (Suc k)
          then have "int k < tc - (n + 1)" using j by simp
          then have "?P (c + 100000 + k * 100000)" using L by blast
          then show ?thesis using Suc by (simp add: algebra_simps)
        qed
      qed
    next
      assume R: ?R
      show ?L
      proof (intro allI impI)
        fix j :: nat assume j: "int j < tc - (n + 1)"
        then have "int (Suc j) < tc - n" by simp
        then have "?P (c + Suc j * 100000)" using R by blast
        then show "?P (c + 100000 + j * 100000)" by (simp add: algebra_simps)
      qed
    qed
    then show ?thesis using step ih by simp
  next
    case False
    then have stop: "takeoff_motors_loop v tc c n = (c, n)"
      by (auto simp add: takeoff_motors_loop.simps [of v tc c n])
    show ?thesis
    proof (cases "n < tc")
      case True
      then have "\<not> ?P c" using False by blast
      moreover have "int 0 < tc - n" using True by simp
      ultimately have "\<not> (\<forall>j::nat. int j < tc - n \<longrightarrow> ?P (c + j * 100000))"
        by (metis add.right_neutral mult_zero_left)
      then show ?thesis using stop True by simp
    next
      case False
      then have "n = tc" using "1.prems" by simp
      then show ?thesis using stop by simp
    qed
  qed
qed

lemma motors_loop_passed:
  "n \<le> tc \<Longrightarrow> takeoff_motors_loop v tc c n = (c', n') \<Longrightarrow> n' \<noteq> tc \<Longrightarrow>
   n \<le> n' \<and> n' < tc \<and> c' = c + nat (n' - n) * 100000 \<and>
   (TOPIC_STATUS_FLIGHT v c' = ON_GROUND \<or> TOPIC_STATUS_DISPLAYMODE v c' = MODE_ENGINE_START)"
proof (induction v tc c n rule: takeoff_motors_loop.induct)
  case (1 v tc c n)
  let ?P = "\<lambda>t. TOPIC_STATUS_FLIGHT v t \<noteq> ON_GROUND \<and> TOPIC_STATUS_DISPLAYMODE v t \<noteq> MODE_ENGINE_START"
  show ?case
  proof (cases "?P c \<and> n < tc")
    case True
    then have step: "takeoff_motors_loop v tc (c + 100000) (n + 1) = (c', n')"
      using "1.prems"(2) by (simp add: takeoff_motors_loop.simps [of v tc c n])
    have "n + 1 \<le> tc" using True by simp
    from "1.IH" [OF _ this step "1.prems"(3)] True
    have r: "n + 1 \<le> n'" "n' < tc" "c' = c + 100000 + nat (n' - (n + 1)) * 100000"
      "TOPIC_STATUS_FLIGHT v c' = ON_GROUND \<or> TOPIC_STATUS_DISPLAYMODE v c' = MODE_ENGINE_START"
      by auto
    have "nat (n' - n) = Suc (nat (n' - (n + 1)))" using r(1) by simp
    then show ?thesis using r by simp
  next
    case False
    then have stop: "(c', n') = (c, n)"
      using "1.prems"(2) by (auto simp add: takeoff_motors_loop.simps [of v tc c n])
    then show ?thesis using False "1.prems" by auto
  qed
qed


lemma motors_loop_earlier:
  "n \<le> tc \<Longrightarrow> takeoff_motors_loop v tc c n = (c', n') \<Longrightarrow>
   \<forall>j::nat. int j < n' - n \<longrightarrow>
     (TOPIC_STATUS_FLIGHT v (c + j * 100000) \<noteq> ON_GROUND \<and>
      TOPIC_STATUS_DISPLAYMODE v (c + j * 100000) \<noteq> MODE_ENGINE_START)"
proof (induction v tc c n rule: takeoff_motors_loop.induct)
  case (1 v tc c n)
  let ?P = "\<lambda>t. TOPIC_STATUS_FLIGHT v t \<noteq> ON_GROUND \<and> TOPIC_STATUS_DISPLAYMODE v t \<noteq> MODE_ENGINE_START"
  show ?case
  proof (cases "?P c \<and> n < tc")
    case True
    then have step: "takeoff_motors_loop v tc (c + 100000) (n + 1) = (c', n')"
      using "1.prems"(2) by (simp add: takeoff_motors_loop.simps [of v tc c n])
    have "n + 1 \<le> tc" using True by simp
    from "1.IH" [OF _ this step] True
    have ih: "\<forall>j::nat. int j < n' - (n + 1) \<longrightarrow> ?P (c + 100000 + j * 100000)"
      by simp
    show ?thesis
    proof (intro allI impI)
      fix j :: nat assume j: "int j < n' - n"
      show "?P (c + j * 100000)"
      proof (cases j)
        case 0
        then show ?thesis using True by simp
      next
        case (Suc k)
        then have "int k < n' - (n + 1)" using j by simp
        then have "?P (c + 100000 + k * 100000)" using ih by blast
        then show ?thesis using Suc by (simp add: algebra_simps)
      qed
    qed
  next
    case False
    then have stop: "(c', n') = (c, n)"
      using "1.prems"(2) by (auto simp add: takeoff_motors_loop.simps [of v tc c n])
    then show ?thesis by simp
  qed
qed

lemma takeoff_final_no_motors_message:
  "takeoff_final v timeout c tr = Some r \<Longrightarrow>
   Print ''Takeoff failed. Motors are not spinning.'' \<notin> set tr \<Longrightarrow>
   Print ''Takeoff failed. Motors are not spinning.'' \<notin> set (snd r)"
  by (auto simp: takeoff_final_def removePackage_checked_def split: option.splits if_splits)

text \<open>
  C2, as amended. When the takeoff request has been accepted: if at each of the first 20
  polls (one every 100 ms) the flight status is not on-ground and the display mode is not
  engine-start, the first check uses up its 20 cycles and \<open>monitoredTakeoff\<close> prints that
  the motors are not spinning, removes the package and returns false. Otherwise the check
  is passed at the first poll that finds the flight status on-ground or the display mode
  engine-start, and \<open>monitoredTakeoff\<close> never prints that message.
\<close>

theorem takeoff_motors_phase:
  assumes "subscribe_verify v timeout = SUCCESS"
    and "subscribe_initPackageFromTopicList v"
    and "subscribe_startPackage v timeout = SUCCESS"
    and "control_takeoff v timeout = SUCCESS"
  shows
    "if (\<forall>j::nat. j < 20 \<longrightarrow>
           (TOPIC_STATUS_FLIGHT v (j * 100000) \<noteq> ON_GROUND \<and>
            TOPIC_STATUS_DISPLAYMODE v (j * 100000) \<noteq> MODE_ENGINE_START))
     then snd (takeoff_motors_loop v 20 0 0) = 20 \<and>
          monitoredTakeoff v timeout =
            Some (False, [Verify, InitPackageFromTopicList, StartPackage, Takeoff,
                          Print ''Takeoff failed. Motors are not spinning.'', RemovePackage])
     else (\<exists>k::nat. k < 20 \<and>
             takeoff_motors_loop v 20 0 0 = (k * 100000, int k) \<and>
             (TOPIC_STATUS_FLIGHT v (k * 100000) = ON_GROUND \<or>
              TOPIC_STATUS_DISPLAYMODE v (k * 100000) = MODE_ENGINE_START) \<and>
             (\<forall>j::nat. j < k \<longrightarrow>
                (TOPIC_STATUS_FLIGHT v (j * 100000) \<noteq> ON_GROUND \<and>
                 TOPIC_STATUS_DISPLAYMODE v (j * 100000) \<noteq> MODE_ENGINE_START))) \<and>
          (\<forall>r. monitoredTakeoff v timeout = Some r \<longrightarrow>
             Print ''Takeoff failed. Motors are not spinning.'' \<notin> set (snd r))"
proof -
  let ?P = "\<lambda>t. TOPIC_STATUS_FLIGHT v t \<noteq> ON_GROUND \<and> TOPIC_STATUS_DISPLAYMODE v t \<noteq> MODE_ENGINE_START"
  let ?all = "\<forall>j::nat. j < 20 \<longrightarrow> ?P (j * 100000)"
  have ex: "(snd (takeoff_motors_loop v 20 0 0) = 20) = ?all"
    using motors_loop_exhausted [of 0 20 v 0] by simp
  have mt: "monitoredTakeoff v timeout =
      takeoff_monitor v timeout [Verify, InitPackageFromTopicList, StartPackage, Takeoff]"
    using assms by (simp add: monitoredTakeoff_def)
  obtain c' n' where res: "takeoff_motors_loop v 20 0 0 = (c', n')"
    by (cases "takeoff_motors_loop v 20 0 0")
  show ?thesis
  proof (cases ?all)
    case True
    then have "n' = 20" using ex res by simp
    then have "monitoredTakeoff v timeout =
        Some (False, [Verify, InitPackageFromTopicList, StartPackage, Takeoff,
                      Print ''Takeoff failed. Motors are not spinning.'', RemovePackage])"
      using mt res by (simp add: takeoff_monitor_def)
    moreover have "snd (takeoff_motors_loop v 20 0 0) = 20" using True ex by blast
    ultimately show ?thesis by (subst if_P [OF True]) (intro conjI)
  next
    case False
    then have ne: "n' \<noteq> 20" using ex res by simp
    from motors_loop_passed [OF _ res ne]
    have p: "0 \<le> n'" "n' < 20" "c' = nat n' * 100000"
      "TOPIC_STATUS_FLIGHT v c' = ON_GROUND \<or> TOPIC_STATUS_DISPLAYMODE v c' = MODE_ENGINE_START"
      by auto
    from motors_loop_earlier [OF _ res]
    have e: "\<forall>j::nat. int j < n' \<longrightarrow> ?P (j * 100000)" by simp
    have first: "\<exists>k::nat. k < 20 \<and>
             takeoff_motors_loop v 20 0 0 = (k * 100000, int k) \<and>
             (TOPIC_STATUS_FLIGHT v (k * 100000) = ON_GROUND \<or>
              TOPIC_STATUS_DISPLAYMODE v (k * 100000) = MODE_ENGINE_START) \<and>
             (\<forall>j::nat. j < k \<longrightarrow> ?P (j * 100000))"
    proof (intro exI [of _ "nat n'"] conjI)
      show "nat n' < 20" using p by simp
      show "takeoff_motors_loop v 20 0 0 = (nat n' * 100000, int (nat n'))"
        using res p by simp
      show "TOPIC_STATUS_FLIGHT v (nat n' * 100000) = ON_GROUND \<or>
            TOPIC_STATUS_DISPLAYMODE v (nat n' * 100000) = MODE_ENGINE_START"
        using p(4) unfolding p(3) .
      show "\<forall>j::nat. j < nat n' \<longrightarrow> ?P (j * 100000)"
        using e p by (simp add: zless_nat_eq_int_zless)
    qed
    have nomsg: "\<forall>r. monitoredTakeoff v timeout = Some r \<longrightarrow>
             Print ''Takeoff failed. Motors are not spinning.'' \<notin> set (snd r)"
    proof (intro allI impI)
      fix r assume r: "monitoredTakeoff v timeout = Some r"
      obtain c2 n2 where res2: "takeoff_inair_loop v 110 c' 0 = (c2, n2)"
        by (cases "takeoff_inair_loop v 110 c' 0")
      show "Print ''Takeoff failed. Motors are not spinning.'' \<notin> set (snd r)"
      proof (cases "n2 = 110")
        case True
        then show ?thesis using r mt res res2 ne by (auto simp: takeoff_monitor_def)
      next
        case False
        then have "takeoff_final v timeout c2
            ([Verify, InitPackageFromTopicList, StartPackage, Takeoff] @
             [Print ''Motors spinning...'', Print ''Ascending...'']) = Some r"
          using r mt res res2 ne by (simp add: takeoff_monitor_def)
        from takeoff_final_no_motors_message [OF this] show ?thesis by simp
      qed
    qed
    show ?thesis by (subst if_not_P [OF False]) (intro conjI first nomsg)
  qed
qed

theorem takeoff_motors_phase_witness:
  "subscribe_verify motors_off 1 = SUCCESS \<and>
   subscribe_initPackageFromTopicList motors_off \<and>
   subscribe_startPackage motors_off 1 = SUCCESS \<and>
   control_takeoff motors_off 1 = SUCCESS \<and>
   snd (takeoff_motors_loop motors_off 20 0 0) = 20 \<and>
   monitoredTakeoff motors_off 1 =
     Some (False, [Verify, InitPackageFromTopicList, StartPackage, Takeoff,
                   Print ''Takeoff failed. Motors are not spinning.'', RemovePackage])"
  using takeoff_motors_phase [of motors_off 1]
  by (simp add: motors_off_def status_vehicle_def)

text \<open>
  C2 as stated fails: a stream stuck at on-ground passes the first check at once, with no
  cycle used. \<open>stuck_then_airborne\<close> stays on the ground for 26 polls and the takeoff
  then succeeds; \<open>stuck_on_ground\<close> never leaves the ground and the takeoff fails in the
  second check, with the message that the motors are spinning.
\<close>

theorem stuck_on_ground_passes_motors_phase:
  "TOPIC_STATUS_FLIGHT stuck_then_airborne = (\<lambda>t. if t \<le> 2500000 then ON_GROUND else IN_AIR) \<and>
   takeoff_motors_loop stuck_then_airborne 20 0 0 = (0, 0) \<and>
   monitoredTakeoff stuck_then_airborne 1 =
     Some (True, [Verify, InitPackageFromTopicList, StartPackage, Takeoff,
                  Print ''Motors spinning...'', Print ''Ascending...'',
                  Print ''Successful takeoff!'', RemovePackage]) \<and>
   TOPIC_STATUS_FLIGHT stuck_on_ground = (\<lambda>t. ON_GROUND) \<and>
   takeoff_motors_loop stuck_on_ground 20 0 0 = (0, 0) \<and>
   monitoredTakeoff stuck_on_ground 1 =
     Some (False, [Verify, InitPackageFromTopicList, StartPackage, Takeoff,
                   Print ''Motors spinning...'',
                   Print ''Takeoff failed. Aircraft is still on the ground, but the motors are spinning.'',
                   RemovePackage])"
  by (simp add: monitoredTakeoff_def takeoff_monitor_def takeoff_final_def takeoff_mode_ok_def
      removePackage_checked_def stuck_then_airborne_def stuck_on_ground_def status_vehicle_def
      status_loop_simps)

section \<open>Facts about one pass through the control loop\<close>

lemmas move_consts =
  timeoutInMilSec_def controlFreqInHz_def cycleTimeInMs_def outOfControlBoundsTimeLimit_def
  withinControlBoundsTimeReqmt_def speedFactor_def zDeadband_def responseTimeout_def

lemma control_sense_fields:
  "elapsedTimeInMs (fst (control_sense args s)) = elapsedTimeInMs s + 20"
  "clock (fst (control_sense args s)) = clock s + 20000"
  "withinBoundsCounter (fst (control_sense args s)) = withinBoundsCounter s"
  "outOfBounds (fst (control_sense args s)) = outOfBounds s"
  "brakeCounter (fst (control_sense args s)) = brakeCounter s"
  "trace (fst (control_sense args s)) =
     trace s @ [PositionAndYawCtrl (xCmd s) (yCmd s) (zCmd args)
                  (yawDesiredRad args / DEG2RAD args)]"
  by (simp_all add: control_sense_def Let_def modify_setpoint_def move_consts split: prod.splits)

lemma accumulate_fields:
  "elapsedTimeInMs (accumulate b s) = elapsedTimeInMs s"
  "clock (accumulate b s) = clock s"
  "brakeCounter (accumulate b s) = brakeCounter s"
  "trace (accumulate b s) = trace s"
  "xCmd (accumulate b s) = xCmd s"
  "yCmd (accumulate b s) = yCmd s"
  by (simp_all add: accumulate_def)

lemma reset_if_necessary_fields:
  "elapsedTimeInMs (reset_if_necessary s) = elapsedTimeInMs s"
  "clock (reset_if_necessary s) = clock s"
  "brakeCounter (reset_if_necessary s) = brakeCounter s"
  "trace (reset_if_necessary s) = trace s"
  "xCmd (reset_if_necessary s) = xCmd s"
  "yCmd (reset_if_necessary s) = yCmd s"
  by (simp_all add: reset_if_necessary_def)

lemma control_step_alt:
  "control_step args s =
     reset_if_necessary (accumulate (snd (control_sense args s)) (fst (control_sense args s)))"
  by (simp add: control_step_def split: prod.splits)

lemma control_step_fields:
  "elapsedTimeInMs (control_step args s) = elapsedTimeInMs s + 20"
  "clock (control_step args s) = clock s + 20000"
  "brakeCounter (control_step args s) = brakeCounter s"
  "trace (control_step args s) =
     trace s @ [PositionAndYawCtrl (xCmd s) (yCmd s) (zCmd args)
                  (yawDesiredRad args / DEG2RAD args)]"
  by (simp_all add: control_step_alt reset_if_necessary_fields accumulate_fields
      control_sense_fields)

lemma control_sense_test:
  "snd (control_sense args s) =
     withinBounds args (offsetRemaining args (clock s + 20000))
       (vec_z (toEulerAngle (TOPIC_QUATERNION (vehicle args) (clock s + 20000))))"
  by (simp add: control_sense_def Let_def modify_setpoint_def move_consts split: prod.splits)

lemma initial_state_fields:
  "elapsedTimeInMs (initial_state args) = 0"
  "withinBoundsCounter (initial_state args) = 0"
  "outOfBounds (initial_state args) = 0"
  "brakeCounter (initial_state args) = 0"
  "clock (initial_state args) = 1000000"
  "trace (initial_state args) = [Verify, InitPackageFromTopicList, StartPackage]"
  by (simp_all add: initial_state_def)

lemmas move_eval =
  control_step_def control_sense_def Let_def modify_setpoint_def accumulate_def
  reset_if_necessary_def withinBounds_def offsetRemaining_def localOffsetFromGpsOffset_def
  toEulerAngle_def toEulerAngle_t2_def atan2_def originGPS_def yawDesiredRad_def
  yawThresholdInRad_def zCmd_def initial_state_def initial_xCmd_def initial_yCmd_def
  move_consts

lemma funpow_11_12:
  "(f ^^ 11) x = f (f (f (f (f (f (f (f (f (f (f x))))))))))"
  "(f ^^ 12) x = f (f (f (f (f (f (f (f (f (f (f (f x)))))))))))"
  by (simp_all add: eval_nat_numeral)

section \<open>The convergence counters\<close>

lemma counters_step:
  assumes "0 \<le> withinBoundsCounter s" "0 \<le> outOfBounds s" "outOfBounds s \<le> 200"
  shows "0 \<le> withinBoundsCounter (control_step args s) \<and>
         0 \<le> outOfBounds (control_step args s) \<and>
         outOfBounds (control_step args s) \<le> 200"
  using assms
  by (simp add: control_step_alt reset_if_necessary_def accumulate_def control_sense_fields
      move_consts)

lemma counters_funpow:
  "0 \<le> withinBoundsCounter ((control_step args ^^ n) (initial_state args)) \<and>
   0 \<le> outOfBounds ((control_step args ^^ n) (initial_state args)) \<and>
   outOfBounds ((control_step args ^^ n) (initial_state args)) \<le> 200"
proof (induction n)
  case 0
  show ?case by (simp add: initial_state_def)
next
  case (Suc n)
  then show ?case using counters_step by simp
qed

text \<open>
  C4. Let \<open>s\<close> be the state after any number \<open>n\<close> of passes through the loop body,
  \<open>a\<close> the state of the next pass after steps 1 and 2 of the counter update, and \<open>s'\<close>
  the state at the end of that pass. Both counters are non-negative in all three. The
  out-of-bounds counter changes in steps 1 and 2 only if the within-bounds counter is
  non-zero (and the cycle is out of bounds), and then by one cycle time. Whenever the
  out-of-bounds counter exceeds the limit of 10 cycle times after step 2, both counters
  are zero at the end of that pass; so it never exceeds the limit between passes.
\<close>

theorem convergence_counters:
  "let s = (control_step args ^^ n) (initial_state args);
       s3 = fst (control_sense args s);
       inBounds = snd (control_sense args s);
       a = accumulate inBounds s3;
       s' = control_step args s
   in 0 \<le> withinBoundsCounter s \<and> 0 \<le> outOfBounds s \<and>
      0 \<le> withinBoundsCounter a \<and> 0 \<le> outOfBounds a \<and>
      0 \<le> withinBoundsCounter s' \<and> 0 \<le> outOfBounds s' \<and>
      (outOfBounds a \<noteq> outOfBounds s \<longrightarrow>
         withinBoundsCounter s \<noteq> 0 \<and> \<not> inBounds \<and>
         outOfBounds a = outOfBounds s + cycleTimeInMs) \<and>
      (outOfBounds a > outOfControlBoundsTimeLimit \<longrightarrow>
         withinBoundsCounter s' = 0 \<and> outOfBounds s' = 0) \<and>
      outOfBounds s' \<le> outOfControlBoundsTimeLimit"
proof -
  define s where "s = (control_step args ^^ n) (initial_state args)"
  have inv: "0 \<le> withinBoundsCounter s" "0 \<le> outOfBounds s" "outOfBounds s \<le> 200"
    using counters_funpow [where args = args and n = n] by (simp_all add: s_def)
  have "0 \<le> withinBoundsCounter s \<and> 0 \<le> outOfBounds s \<and>
      0 \<le> withinBoundsCounter (accumulate (snd (control_sense args s)) (fst (control_sense args s))) \<and>
      0 \<le> outOfBounds (accumulate (snd (control_sense args s)) (fst (control_sense args s))) \<and>
      0 \<le> withinBoundsCounter (control_step args s) \<and> 0 \<le> outOfBounds (control_step args s) \<and>
      (outOfBounds (accumulate (snd (control_sense args s)) (fst (control_sense args s))) \<noteq> outOfBounds s \<longrightarrow>
         withinBoundsCounter s \<noteq> 0 \<and> \<not> snd (control_sense args s) \<and>
         outOfBounds (accumulate (snd (control_sense args s)) (fst (control_sense args s))) = outOfBounds s + cycleTimeInMs) \<and>
      (outOfBounds (accumulate (snd (control_sense args s)) (fst (control_sense args s))) > outOfControlBoundsTimeLimit \<longrightarrow>
         withinBoundsCounter (control_step args s) = 0 \<and> outOfBounds (control_step args s) = 0) \<and>
      outOfBounds (control_step args s) \<le> outOfControlBoundsTimeLimit"
    using inv
    by (simp add: control_step_alt reset_if_necessary_def accumulate_def control_sense_fields
      move_consts)
  then show ?thesis unfolding Let_def s_def .
qed

theorem convergence_counters_witness:
  "withinBoundsCounter ((control_step excursion_args ^^ 11) (initial_state excursion_args)) = 20 \<and>
   outOfBounds ((control_step excursion_args ^^ 11) (initial_state excursion_args)) = 200 \<and>
   outOfBounds
     (accumulate
        (snd (control_sense excursion_args
                ((control_step excursion_args ^^ 11) (initial_state excursion_args))))
        (fst (control_sense excursion_args
                ((control_step excursion_args ^^ 11) (initial_state excursion_args))))) = 220 \<and>
   withinBoundsCounter ((control_step excursion_args ^^ 12) (initial_state excursion_args)) = 0 \<and>
   outOfBounds ((control_step excursion_args ^^ 12) (initial_state excursion_args)) = 0"
  using convergence_counters [where args = excursion_args and n = 11]
  by (simp add: move_eval excursion_args_def telemetry_vehicle_def funpow_11_12)

section \<open>Termination of the control loop\<close>

lemma elapsed_funpow:
  "elapsedTimeInMs ((control_step args ^^ m) s) = elapsedTimeInMs s + 20 * int m"
  by (induction m) (simp_all add: control_step_fields)

lemma brakeCounter_funpow:
  "brakeCounter ((control_step args ^^ m) s) = brakeCounter s"
  by (induction m) (simp_all add: control_step_fields)

lemma control_loop_run:
  "elapsedTimeInMs s = 20 * int k \<Longrightarrow> k < 500 \<Longrightarrow>
   \<exists>m. 1 \<le> m \<and> k + m \<le> 500 \<and>
       control_loop args s = (control_step args ^^ m) s \<and>
       (\<forall>j. 1 \<le> j \<and> j < m \<longrightarrow>
          withinBoundsCounter ((control_step args ^^ j) s) < 1000) \<and>
       (withinBoundsCounter (control_loop args s) \<ge> 1000 \<or> k + m = 500)"
proof (induction args s arbitrary: k rule: control_loop.induct)
  case (1 args s)
  let ?s' = "control_step args s"
  have run: "elapsedTimeInMs s < timeoutInMilSec"
    using "1.prems" by (simp add: timeoutInMilSec_def)
  show ?case
  proof (cases "withinBoundsCounter ?s' \<ge> 1000")
    case True
    then have "control_loop args s = ?s'"
      using run by (simp add: control_loop.simps [of args s] withinControlBoundsTimeReqmt_def
          cycleTimeInMs_def controlFreqInHz_def)
    then show ?thesis using True "1.prems"
      by (intro exI [of _ 1]) simp
  next
    case False
    then have unfold: "control_loop args s = control_loop args ?s'"
      using run by (simp add: control_loop.simps [of args s] withinControlBoundsTimeReqmt_def
          cycleTimeInMs_def controlFreqInHz_def)
    have el: "elapsedTimeInMs ?s' = 20 * int (Suc k)"
      using "1.prems" by (simp add: control_step_fields)
    have notyet: "\<not> withinControlBoundsTimeReqmt \<le> withinBoundsCounter ?s'"
      using False by (simp add: withinControlBoundsTimeReqmt_def cycleTimeInMs_def
          controlFreqInHz_def)
    show ?thesis
    proof (cases "Suc k < 500")
      case True
      from "1.IH" [OF run notyet el True]
      obtain m where m: "1 \<le> m" "Suc k + m \<le> 500"
        "control_loop args ?s' = (control_step args ^^ m) ?s'"
        "\<forall>j. 1 \<le> j \<and> j < m \<longrightarrow> withinBoundsCounter ((control_step args ^^ j) ?s') < 1000"
        "withinBoundsCounter (control_loop args ?s') \<ge> 1000 \<or> Suc k + m = 500"
        by blast
      have early: "\<forall>j. 1 \<le> j \<and> j < Suc m \<longrightarrow>
          withinBoundsCounter ((control_step args ^^ j) s) < 1000"
      proof (intro allI impI)
        fix j assume j: "1 \<le> j \<and> j < Suc m"
        show "withinBoundsCounter ((control_step args ^^ j) s) < 1000"
        proof (cases "j = 1")
          case True
          then show ?thesis using False by simp
        next
          case False
          then obtain i where i: "j = Suc i" "1 \<le> i" "i < m"
            using j by (cases j) auto
          then have "withinBoundsCounter ((control_step args ^^ i) ?s') < 1000"
            using m(4) by blast
          then show ?thesis using i by (simp add: funpow_swap1)
        qed
      qed
      show ?thesis
      proof (intro exI [of _ "Suc m"] conjI)
        show "1 \<le> Suc m" by simp
        show "k + Suc m \<le> 500" using m(2) by simp
        show "control_loop args s = (control_step args ^^ Suc m) s"
          using unfold m(3) by (simp add: funpow_swap1)
        show "\<forall>j. 1 \<le> j \<and> j < Suc m \<longrightarrow>
          withinBoundsCounter ((control_step args ^^ j) s) < 1000" by (rule early)
        show "1000 \<le> withinBoundsCounter (control_loop args s) \<or> k + Suc m = 500"
          using m(5) unfold by simp
      qed
    next
      case False
      then have k: "k = 499" using "1.prems" by simp
      then have "\<not> elapsedTimeInMs ?s' < timeoutInMilSec"
        using el by (simp add: timeoutInMilSec_def)
      then have "control_loop args ?s' = ?s'"
        by (simp add: control_loop.simps [of args ?s'])
      then have "control_loop args s = ?s'" using unfold by simp
      then show ?thesis using k
        by (intro exI [of _ 1]) simp
    qed
  qed
qed

lemma control_loop_from_start:
  "\<exists>m. 1 \<le> m \<and> m \<le> 500 \<and>
       control_loop args (initial_state args) = (control_step args ^^ m) (initial_state args) \<and>
       (\<forall>j. 1 \<le> j \<and> j < m \<longrightarrow>
          withinBoundsCounter ((control_step args ^^ j) (initial_state args)) < 1000) \<and>
       (withinBoundsCounter (control_loop args (initial_state args)) \<ge> 1000 \<or> m = 500)"
  using control_loop_run [of "initial_state args" 0 args]
  by (simp add: initial_state_fields)

lemma brake_loop_run:
  "brakeCounter s = 20 * int k \<Longrightarrow> k \<le> 50 \<Longrightarrow>
   trace (brake_loop s) = trace s @ replicate (50 - k) EmergencyBrake \<and>
   elapsedTimeInMs (brake_loop s) = elapsedTimeInMs s"
proof (induction s arbitrary: k rule: brake_loop.induct)
  case (1 s)
  show ?case
  proof (cases "k < 50")
    case True
    let ?s' = "s\<lparr>trace := trace s @ [EmergencyBrake], clock := clock s + nat cycleTimeInMs,
                 brakeCounter := brakeCounter s + cycleTimeInMs\<rparr>"
    have c: "brakeCounter s < withinControlBoundsTimeReqmt"
      using True "1.prems" by (simp add: move_consts)
    then have unfold: "brake_loop s = brake_loop ?s'"
      by (simp add: brake_loop.simps [of s])
    have "brakeCounter ?s' = 20 * int (Suc k)" using "1.prems" by (simp add: move_consts)
    moreover have "Suc k \<le> 50" using True by simp
    ultimately have "trace (brake_loop ?s') = trace ?s' @ replicate (50 - Suc k) EmergencyBrake \<and>
        elapsedTimeInMs (brake_loop ?s') = elapsedTimeInMs ?s'"
      using "1.IH" [OF c] by blast
    moreover have "50 - k = Suc (50 - Suc k)" using True by simp
    ultimately show ?thesis using unfold by (simp add: replicate_append_same)
  next
    case False
    then have "k = 50" using "1.prems" by simp
    then have "\<not> brakeCounter s < withinControlBoundsTimeReqmt"
      using "1.prems" by (simp add: move_consts)
    then have "brake_loop s = s" by (simp add: brake_loop.simps [of s])
    then show ?thesis using \<open>k = 50\<close> by simp
  qed
qed

lemma move_after_start:
  assumes "subscribe_verify (vehicle args) responseTimeout = SUCCESS"
    and "subscribe_initPackageFromTopicList (vehicle args)"
    and "subscribe_startPackage (vehicle args) responseTimeout = SUCCESS"
  shows "moveByPositionOffset args = move_finish args (control_loop args (initial_state args))"
  using assms by (simp add: moveByPositionOffset_def)

text \<open>
  C5. The cycle time is positive and each pass through the loop body adds it to the
  elapsed time. When the subscription has started, the control loop ends after some
  number \<open>m\<close> of passes with \<open>1 \<le> m \<le> 500\<close>: the within-bounds counter is below the
  required dwell after every earlier pass, and after pass \<open>m\<close> it has reached the dwell or
  the elapsed time has reached the ceiling of 10000 ms. The function returns
  \<^verbatim>\<open>ACK::SUCCESS\<close> if the loop ended before the ceiling and \<^verbatim>\<open>ACK::FAIL\<close> if the
  elapsed time reached it. \<open>control_loop\<close> is a total function: its termination proof
  is the measure \<open>timeoutInMilSec - elapsedTimeInMs\<close>.
\<close>

theorem control_loop_terminates:
  assumes "subscribe_verify (vehicle args) responseTimeout = SUCCESS"
    and "subscribe_initPackageFromTopicList (vehicle args)"
    and "subscribe_startPackage (vehicle args) responseTimeout = SUCCESS"
  shows
    "0 < cycleTimeInMs \<and>
     (\<forall>s. elapsedTimeInMs (control_step args s) = elapsedTimeInMs s + cycleTimeInMs) \<and>
     (\<exists>m. 1 \<le> m \<and> m \<le> 500 \<and>
        control_loop args (initial_state args) = (control_step args ^^ m) (initial_state args) \<and>
        elapsedTimeInMs (control_loop args (initial_state args)) = int m * cycleTimeInMs \<and>
        (\<forall>j. 1 \<le> j \<and> j < m \<longrightarrow>
           withinBoundsCounter ((control_step args ^^ j) (initial_state args))
             < withinControlBoundsTimeReqmt) \<and>
        (withinControlBoundsTimeReqmt \<le> withinBoundsCounter (control_loop args (initial_state args)) \<or>
         int m * cycleTimeInMs = timeoutInMilSec) \<and>
        fst (moveByPositionOffset args) =
          (if int m * cycleTimeInMs < timeoutInMilSec then ReturnAck SUCCESS else ReturnAck FAIL))"
proof -
  obtain m where m: "1 \<le> m" "m \<le> 500"
    "control_loop args (initial_state args) = (control_step args ^^ m) (initial_state args)"
    "\<forall>j. 1 \<le> j \<and> j < m \<longrightarrow>
          withinBoundsCounter ((control_step args ^^ j) (initial_state args)) < 1000"
    "withinBoundsCounter (control_loop args (initial_state args)) \<ge> 1000 \<or> m = 500"
    using control_loop_from_start [of args] by blast
  have el: "elapsedTimeInMs (control_loop args (initial_state args)) = 20 * int m"
    using m(3) by (simp add: elapsed_funpow initial_state_fields)
  have bc: "brakeCounter (control_loop args (initial_state args)) = 20 * int 0"
    using m(3) by (simp add: brakeCounter_funpow initial_state_fields)
  have "elapsedTimeInMs (brake_loop (control_loop args (initial_state args))) = 20 * int m"
    using brake_loop_run [OF bc] el by simp
  then have ret: "fst (moveByPositionOffset args) =
      (if int m * cycleTimeInMs < timeoutInMilSec then ReturnAck SUCCESS else ReturnAck FAIL)"
    using move_after_start [OF assms] by (simp add: move_finish_def Let_def move_consts)
  have "1 \<le> m \<and> m \<le> 500 \<and>
        control_loop args (initial_state args) = (control_step args ^^ m) (initial_state args) \<and>
        elapsedTimeInMs (control_loop args (initial_state args)) = int m * cycleTimeInMs \<and>
        (\<forall>j. 1 \<le> j \<and> j < m \<longrightarrow>
           withinBoundsCounter ((control_step args ^^ j) (initial_state args))
             < withinControlBoundsTimeReqmt) \<and>
        (withinControlBoundsTimeReqmt \<le> withinBoundsCounter (control_loop args (initial_state args)) \<or>
         int m * cycleTimeInMs = timeoutInMilSec) \<and>
        fst (moveByPositionOffset args) =
          (if int m * cycleTimeInMs < timeoutInMilSec then ReturnAck SUCCESS else ReturnAck FAIL)"
    using m el ret by (simp add: move_consts)
  then have "\<exists>m. 1 \<le> m \<and> m \<le> 500 \<and>
        control_loop args (initial_state args) = (control_step args ^^ m) (initial_state args) \<and>
        elapsedTimeInMs (control_loop args (initial_state args)) = int m * cycleTimeInMs \<and>
        (\<forall>j. 1 \<le> j \<and> j < m \<longrightarrow>
           withinBoundsCounter ((control_step args ^^ j) (initial_state args))
             < withinControlBoundsTimeReqmt) \<and>
        (withinControlBoundsTimeReqmt \<le> withinBoundsCounter (control_loop args (initial_state args)) \<or>
         int m * cycleTimeInMs = timeoutInMilSec) \<and>
        fst (moveByPositionOffset args) =
          (if int m * cycleTimeInMs < timeoutInMilSec then ReturnAck SUCCESS else ReturnAck FAIL)"
    by (rule exI)
  moreover have "0 < cycleTimeInMs" by (simp add: move_consts)
  moreover have "\<forall>s. elapsedTimeInMs (control_step args s) = elapsedTimeInMs s + cycleTimeInMs"
    by (simp add: control_step_fields move_consts)
  ultimately show ?thesis by blast
qed

lemma never_within_counters:
  assumes "\<And>t. \<not> withinBounds args (offsetRemaining args t)
             (vec_z (toEulerAngle (TOPIC_QUATERNION (vehicle args) t)))"
  shows "withinBoundsCounter ((control_step args ^^ j) (initial_state args)) = 0 \<and>
         outOfBounds ((control_step args ^^ j) (initial_state args)) = 0"
proof (induction j)
  case 0
  show ?case by (simp add: initial_state_fields)
next
  case (Suc j)
  then show ?case using assms
    by (simp add: control_step_alt control_sense_test control_sense_fields accumulate_def
        reset_if_necessary_def move_consts)
qed

lemma always_within_counters:
  assumes "\<And>t. withinBounds args (offsetRemaining args t)
             (vec_z (toEulerAngle (TOPIC_QUATERNION (vehicle args) t)))"
  shows "withinBoundsCounter ((control_step args ^^ j) (initial_state args)) = 20 * int j \<and>
         outOfBounds ((control_step args ^^ j) (initial_state args)) = 0"
proof (induction j)
  case 0
  show ?case by (simp add: initial_state_fields)
next
  case (Suc j)
  then show ?case using assms
    by (simp add: control_step_alt control_sense_test control_sense_fields accumulate_def
        reset_if_necessary_def move_consts)
qed

lemma stationary_never_within:
  "\<not> withinBounds stationary_args (offsetRemaining stationary_args t)
       (vec_z (toEulerAngle (TOPIC_QUATERNION (vehicle stationary_args) t)))"
  by (simp add: withinBounds_def offsetRemaining_def localOffsetFromGpsOffset_def originGPS_def
      stationary_args_def telemetry_vehicle_def Let_def)

lemma hover_always_within:
  "withinBounds hover_args (offsetRemaining hover_args t)
       (vec_z (toEulerAngle (TOPIC_QUATERNION (vehicle hover_args) t)))"
  by (simp add: withinBounds_def offsetRemaining_def localOffsetFromGpsOffset_def originGPS_def
      toEulerAngle_def toEulerAngle_t2_def atan2_def yawDesiredRad_def yawThresholdInRad_def
      zDeadband_def hover_args_def telemetry_vehicle_def Let_def)

theorem control_loop_terminates_witness:
  "subscribe_verify (vehicle stationary_args) responseTimeout = SUCCESS \<and>
   subscribe_initPackageFromTopicList (vehicle stationary_args) \<and>
   subscribe_startPackage (vehicle stationary_args) responseTimeout = SUCCESS \<and>
   elapsedTimeInMs (control_loop stationary_args (initial_state stationary_args)) = 10000 \<and>
   fst (moveByPositionOffset stationary_args) = ReturnAck FAIL \<and>
   elapsedTimeInMs (control_loop hover_args (initial_state hover_args)) = 1000 \<and>
   fst (moveByPositionOffset hover_args) = ReturnAck SUCCESS"
proof -
  have ok_stat: "subscribe_verify (vehicle stationary_args) responseTimeout = SUCCESS"
    "subscribe_initPackageFromTopicList (vehicle stationary_args)"
    "subscribe_startPackage (vehicle stationary_args) responseTimeout = SUCCESS"
    by (simp_all add: stationary_args_def telemetry_vehicle_def)
  have ok_hover: "subscribe_verify (vehicle hover_args) responseTimeout = SUCCESS"
    "subscribe_initPackageFromTopicList (vehicle hover_args)"
    "subscribe_startPackage (vehicle hover_args) responseTimeout = SUCCESS"
    by (simp_all add: hover_args_def telemetry_vehicle_def)
  from control_loop_terminates [OF ok_stat]
  obtain m where m: "1 \<le> m" "m \<le> 500"
    "control_loop stationary_args (initial_state stationary_args) =
       (control_step stationary_args ^^ m) (initial_state stationary_args)"
    "elapsedTimeInMs (control_loop stationary_args (initial_state stationary_args)) =
       int m * cycleTimeInMs"
    "withinControlBoundsTimeReqmt \<le>
       withinBoundsCounter (control_loop stationary_args (initial_state stationary_args)) \<or>
     int m * cycleTimeInMs = timeoutInMilSec"
    "fst (moveByPositionOffset stationary_args) =
       (if int m * cycleTimeInMs < timeoutInMilSec then ReturnAck SUCCESS else ReturnAck FAIL)"
    by blast
  have "withinBoundsCounter (control_loop stationary_args (initial_state stationary_args)) = 0"
    using never_within_counters [OF stationary_never_within] m(3) by simp
  then have full: "int m * cycleTimeInMs = timeoutInMilSec"
    using m(5) by (simp add: move_consts)
  have stat: "elapsedTimeInMs (control_loop stationary_args (initial_state stationary_args)) = 10000"
    "fst (moveByPositionOffset stationary_args) = ReturnAck FAIL"
    using m(4,6) full by (simp_all add: timeoutInMilSec_def)
  from control_loop_terminates [OF ok_hover]
  obtain n where n: "1 \<le> n" "n \<le> 500"
    "control_loop hover_args (initial_state hover_args) =
       (control_step hover_args ^^ n) (initial_state hover_args)"
    "elapsedTimeInMs (control_loop hover_args (initial_state hover_args)) =
       int n * cycleTimeInMs"
    "\<forall>j. 1 \<le> j \<and> j < n \<longrightarrow>
           withinBoundsCounter ((control_step hover_args ^^ j) (initial_state hover_args))
             < withinControlBoundsTimeReqmt"
    "withinControlBoundsTimeReqmt \<le>
       withinBoundsCounter (control_loop hover_args (initial_state hover_args)) \<or>
     int n * cycleTimeInMs = timeoutInMilSec"
    "fst (moveByPositionOffset hover_args) =
       (if int n * cycleTimeInMs < timeoutInMilSec then ReturnAck SUCCESS else ReturnAck FAIL)"
    by blast
  have w: "\<And>j. withinBoundsCounter ((control_step hover_args ^^ j) (initial_state hover_args)) = 20 * int j"
    using always_within_counters [OF hover_always_within] by simp
  have "\<not> 50 < n"
  proof
    assume "50 < n"
    then have "withinBoundsCounter ((control_step hover_args ^^ 50) (initial_state hover_args))
             < withinControlBoundsTimeReqmt" using n(5) by simp
    then show False using w [of 50] by (simp add: move_consts)
  qed
  moreover have "50 \<le> n" using n(6) n(3) w [of n] by (auto simp: move_consts)
  ultimately have "n = 50" by simp
  then have hov: "elapsedTimeInMs (control_loop hover_args (initial_state hover_args)) = 1000"
    "fst (moveByPositionOffset hover_args) = ReturnAck SUCCESS"
    using n(4,7) by (simp_all add: move_consts)
  show ?thesis using ok_stat stat hov by simp
qed

section \<open>The brake phase\<close>

lemma loop_trace_no_brake:
  "EmergencyBrake \<notin> set (trace ((control_step args ^^ m) (initial_state args)))"
  by (induction m) (simp_all add: control_step_fields initial_state_fields)

lemma removePackage_checked_no_brake:
  "EmergencyBrake \<notin> set (removePackage_checked v t)"
  by (simp add: removePackage_checked_def)

text \<open>
  C6. When the subscription has started, the commands of \<open>moveByPositionOffset\<close> are
  those of the control loop, then 50 brake commands (the brake counter runs from 0 to the
  dwell requirement of 1000 ms in steps of one cycle time), then the timeout line if the
  function returns \<^verbatim>\<open>ACK::FAIL\<close>, then the removal of the package. So on both ways out
  of the loop the brake is commanded, 50 times, before the function returns.
\<close>

theorem brake_before_return:
  assumes "subscribe_verify (vehicle args) responseTimeout = SUCCESS"
    and "subscribe_initPackageFromTopicList (vehicle args)"
    and "subscribe_startPackage (vehicle args) responseTimeout = SUCCESS"
  shows
    "snd (moveByPositionOffset args) =
       trace (control_loop args (initial_state args)) @
       replicate 50 EmergencyBrake @
       (if fst (moveByPositionOffset args) = ReturnAck FAIL then [Print ''Task timeout!''] else []) @
       removePackage_checked (vehicle args) responseTimeout \<and>
     EmergencyBrake \<in> set (snd (moveByPositionOffset args)) \<and>
     length (filter (\<lambda>c. c = EmergencyBrake) (snd (moveByPositionOffset args))) = 50 \<and>
     (fst (moveByPositionOffset args) = ReturnAck SUCCESS \<or>
      fst (moveByPositionOffset args) = ReturnAck FAIL)"
proof -
  let ?sf = "control_loop args (initial_state args)"
  obtain m where m: "?sf = (control_step args ^^ m) (initial_state args)"
    using control_loop_from_start [of args] by blast
  have bc: "brakeCounter ?sf = 20 * int 0"
    using m by (simp add: brakeCounter_funpow initial_state_fields)
  have br: "trace (brake_loop ?sf) = trace ?sf @ replicate 50 EmergencyBrake"
    using brake_loop_run [OF bc] by simp
  have shape: "snd (moveByPositionOffset args) =
       trace ?sf @ replicate 50 EmergencyBrake @
       (if fst (moveByPositionOffset args) = ReturnAck FAIL then [Print ''Task timeout!''] else []) @
       removePackage_checked (vehicle args) responseTimeout"
    using move_after_start [OF assms] br by (simp add: move_finish_def Let_def)
  have ret: "fst (moveByPositionOffset args) = ReturnAck SUCCESS \<or>
      fst (moveByPositionOffset args) = ReturnAck FAIL"
    using move_after_start [OF assms] by (simp add: move_finish_def Let_def)
  have nb: "filter (\<lambda>c. c = EmergencyBrake) (trace ?sf) = []"
    using loop_trace_no_brake [where args = args and m = m] m by (auto simp: filter_empty_conv)
  have nr: "filter (\<lambda>c. c = EmergencyBrake) (removePackage_checked (vehicle args) responseTimeout) = []"
    using removePackage_checked_no_brake [of "vehicle args" responseTimeout] by (auto simp: filter_empty_conv)
  have count: "length (filter (\<lambda>c. c = EmergencyBrake) (snd (moveByPositionOffset args))) = 50"
    by (subst shape) (simp add: nb nr)
  have mem: "EmergencyBrake \<in> set (snd (moveByPositionOffset args))"
    by (subst shape) simp
  show ?thesis using shape mem count ret by blast
qed

theorem brake_before_return_witness:
  "subscribe_verify (vehicle hover_args) responseTimeout = SUCCESS \<and>
   subscribe_initPackageFromTopicList (vehicle hover_args) \<and>
   subscribe_startPackage (vehicle hover_args) responseTimeout = SUCCESS \<and>
   EmergencyBrake \<in> set (snd (moveByPositionOffset hover_args)) \<and>
   length (filter (\<lambda>c. c = EmergencyBrake) (snd (moveByPositionOffset hover_args))) = 50 \<and>
   EmergencyBrake \<in> set (snd (moveByPositionOffset stationary_args)) \<and>
   length (filter (\<lambda>c. c = EmergencyBrake) (snd (moveByPositionOffset stationary_args))) = 50"
proof -
  have ok_hover: "subscribe_verify (vehicle hover_args) responseTimeout = SUCCESS"
    "subscribe_initPackageFromTopicList (vehicle hover_args)"
    "subscribe_startPackage (vehicle hover_args) responseTimeout = SUCCESS"
    by (simp_all add: hover_args_def telemetry_vehicle_def)
  have ok_stat: "subscribe_verify (vehicle stationary_args) responseTimeout = SUCCESS"
    "subscribe_initPackageFromTopicList (vehicle stationary_args)"
    "subscribe_startPackage (vehicle stationary_args) responseTimeout = SUCCESS"
    by (simp_all add: stationary_args_def telemetry_vehicle_def)
  show ?thesis
    using ok_hover brake_before_return [OF ok_hover] brake_before_return [OF ok_stat] by blast
qed

section \<open>The initial setpoint\<close>

text \<open>
  C7. The initial x command is the desired x offset when its magnitude is below
  \<open>speedFactor = 2\<close>, and otherwise \<open>speedFactor\<close> with the sign of the offset; it is 0
  for the offset 0. The same holds for y. The z command is the altitude read before the
  loop plus the desired z offset. The x command does not depend on the y and z offsets,
  nor the y command on the x and z offsets. These three values are what the first
  position command carries.
\<close>

theorem initial_setpoint:
  "initial_xCmd args =
     (if \<bar>xOffsetDesired args\<bar> < real_of_int speedFactor then xOffsetDesired args
      else sgn (xOffsetDesired args) * real_of_int speedFactor) \<and>
   initial_yCmd args =
     (if \<bar>yOffsetDesired args\<bar> < real_of_int speedFactor then yOffsetDesired args
      else sgn (yOffsetDesired args) * real_of_int speedFactor) \<and>
   speedFactor = 2 \<and>
   initial_xCmd (args\<lparr>xOffsetDesired := 0\<rparr>) = 0 \<and>
   initial_yCmd (args\<lparr>yOffsetDesired := 0\<rparr>) = 0 \<and>
   zCmd args = altitude (TOPIC_GPS_FUSED (vehicle args) 1000000) + zOffsetDesired args \<and>
   initial_xCmd (args\<lparr>yOffsetDesired := y', zOffsetDesired := z'\<rparr>) = initial_xCmd args \<and>
   initial_yCmd (args\<lparr>xOffsetDesired := x', zOffsetDesired := z'\<rparr>) = initial_yCmd args \<and>
   trace (control_step args (initial_state args)) =
     [Verify, InitPackageFromTopicList, StartPackage,
      PositionAndYawCtrl (initial_xCmd args) (initial_yCmd args) (zCmd args)
        (yawDesiredRad args / DEG2RAD args)]"
proof -
  have x: "initial_xCmd args =
     (if \<bar>xOffsetDesired args\<bar> < real_of_int speedFactor then xOffsetDesired args
      else sgn (xOffsetDesired args) * real_of_int speedFactor)"
    by (simp add: initial_xCmd_def speedFactor_def sgn_real_def)
  have y: "initial_yCmd args =
     (if \<bar>yOffsetDesired args\<bar> < real_of_int speedFactor then yOffsetDesired args
      else sgn (yOffsetDesired args) * real_of_int speedFactor)"
    by (simp add: initial_yCmd_def speedFactor_def sgn_real_def)
  have z: "zCmd args = altitude (TOPIC_GPS_FUSED (vehicle args) 1000000) + zOffsetDesired args"
    by (simp add: zCmd_def originGPS_def)
  have ind: "initial_xCmd (args\<lparr>yOffsetDesired := y', zOffsetDesired := z'\<rparr>) = initial_xCmd args"
    "initial_yCmd (args\<lparr>xOffsetDesired := x', zOffsetDesired := z'\<rparr>) = initial_yCmd args"
    "initial_xCmd (args\<lparr>xOffsetDesired := 0\<rparr>) = 0"
    "initial_yCmd (args\<lparr>yOffsetDesired := 0\<rparr>) = 0"
    by (simp_all add: initial_xCmd_def initial_yCmd_def)
  have tr: "trace (control_step args (initial_state args)) =
     [Verify, InitPackageFromTopicList, StartPackage,
      PositionAndYawCtrl (initial_xCmd args) (initial_yCmd args) (zCmd args)
        (yawDesiredRad args / DEG2RAD args)]"
    by (simp add: control_step_fields initial_state_def)
  have sf: "speedFactor = 2" by (simp add: speedFactor_def)
  show ?thesis using x y z ind tr sf by blast
qed

text \<open>
  The offsets 0, 6, 5, -5 and 1.5 give the commands 0, 2, 2, -2 and 1.5; with the
  altitude 0 and the z offset 6 the z command is 6.
\<close>

theorem initial_setpoint_witness:
  "initial_xCmd stationary_args = 0 \<and>
   initial_yCmd stationary_args = 2 \<and>
   zCmd stationary_args = 6 \<and>
   initial_xCmd rediverge_args = 2 \<and>
   initial_xCmd (rediverge_args\<lparr>xOffsetDesired := - 5\<rparr>) = - 2 \<and>
   initial_xCmd (rediverge_args\<lparr>xOffsetDesired := 1.5\<rparr>) = 1.5"
proof -
  have s: "speedFactor = 2" by (simp add: speedFactor_def)
  from initial_setpoint [where args = stationary_args]
  have "initial_xCmd stationary_args =
     (if \<bar>xOffsetDesired stationary_args\<bar> < real_of_int speedFactor
      then xOffsetDesired stationary_args
      else sgn (xOffsetDesired stationary_args) * real_of_int speedFactor)"
    "initial_yCmd stationary_args =
     (if \<bar>yOffsetDesired stationary_args\<bar> < real_of_int speedFactor
      then yOffsetDesired stationary_args
      else sgn (yOffsetDesired stationary_args) * real_of_int speedFactor)"
    "zCmd stationary_args =
       altitude (TOPIC_GPS_FUSED (vehicle stationary_args) 1000000) + zOffsetDesired stationary_args"
    by blast+
  then have a: "initial_xCmd stationary_args = 0" "initial_yCmd stationary_args = 2"
    "zCmd stationary_args = 6"
    by (simp_all add: s stationary_args_def telemetry_vehicle_def)
  from initial_setpoint [where args = rediverge_args]
  have "initial_xCmd rediverge_args =
     (if \<bar>xOffsetDesired rediverge_args\<bar> < real_of_int speedFactor
      then xOffsetDesired rediverge_args
      else sgn (xOffsetDesired rediverge_args) * real_of_int speedFactor)"
    by blast
  then have b: "initial_xCmd rediverge_args = 2"
    by (simp add: s rediverge_args_def)
  from initial_setpoint [where args = "rediverge_args\<lparr>xOffsetDesired := - 5\<rparr>"]
  have "initial_xCmd (rediverge_args\<lparr>xOffsetDesired := - 5\<rparr>) =
     (if \<bar>xOffsetDesired (rediverge_args\<lparr>xOffsetDesired := - 5\<rparr>)\<bar> < real_of_int speedFactor
      then xOffsetDesired (rediverge_args\<lparr>xOffsetDesired := - 5\<rparr>)
      else sgn (xOffsetDesired (rediverge_args\<lparr>xOffsetDesired := - 5\<rparr>)) * real_of_int speedFactor)"
    by blast
  then have c: "initial_xCmd (rediverge_args\<lparr>xOffsetDesired := - 5\<rparr>) = - 2"
    by (simp add: s)
  from initial_setpoint [where args = "rediverge_args\<lparr>xOffsetDesired := 1.5\<rparr>"]
  have "initial_xCmd (rediverge_args\<lparr>xOffsetDesired := 1.5\<rparr>) =
     (if \<bar>xOffsetDesired (rediverge_args\<lparr>xOffsetDesired := 1.5\<rparr>)\<bar> < real_of_int speedFactor
      then xOffsetDesired (rediverge_args\<lparr>xOffsetDesired := 1.5\<rparr>)
      else sgn (xOffsetDesired (rediverge_args\<lparr>xOffsetDesired := 1.5\<rparr>)) * real_of_int speedFactor)"
    by blast
  then have d: "initial_xCmd (rediverge_args\<lparr>xOffsetDesired := 1.5\<rparr>) = 1.5"
    by (simp add: s)
  show ?thesis using a b c d by blast
qed

section \<open>Quaternion to Euler angles\<close>

lemma deliver_Finite: "\<bar>r\<bar> < limit \<Longrightarrow> deliver limit r = Finite r"
  by (auto simp: deliver_def)

lemma limits_large: "2 ^ 127 < FLT_LIMIT" "2 ^ 128 < DBL_LIMIT"
  by (simp_all add: FLT_LIMIT_def DBL_LIMIT_def)

lemma product_bound:
  fixes a b :: real
  assumes "\<bar>a\<bar> \<le> 2 ^ 63" "\<bar>b\<bar> \<le> 2 ^ 63"
  shows "\<bar>a * b\<bar> \<le> 2 ^ 126"
proof -
  have "\<bar>a\<bar> * \<bar>b\<bar> \<le> 2 ^ 63 * 2 ^ 63"
    using assms by (intro mult_mono) simp_all
  then show ?thesis by (simp add: abs_mult)
qed

lemma toEulerAngle_t2_exact:
  "toEulerAngle_t2 q = max (- 1) (min 1 (- 2 * (q1 q * q3 q - q0 q * q2 q)))"
  "- 1 \<le> toEulerAngle_t2 q" "toEulerAngle_t2 q \<le> 1"
  by (simp_all add: toEulerAngle_t2_def Let_def max_def min_def)

text \<open>
  C8, as amended. \<open>toEulerAngle\<close> maps the identity quaternion to roll = pitch = yaw
  = 0. For every quaternion whose components are finite with magnitude at most
  \<open>2 ^ 63\<close>, which covers every unit quaternion, no operation of the pitch term
  overflows: \<open>t2\<close> is the exact value \<open>-2 (q1 q3 - q0 q2)\<close> clamped to \<open>[-1, 1]\<close>, so
  the argument of \<^verbatim>\<open>asin\<close> lies in its domain and the pitch is its arc sine, not NaN.
  On these quaternions the computation with overflow and NaN agrees with the exact one.
\<close>

theorem toEulerAngle_identity_and_clamp:
  assumes "\<bar>a\<bar> \<le> 2 ^ 63" and "\<bar>b\<bar> \<le> 2 ^ 63" and "\<bar>c\<bar> \<le> 2 ^ 63" and "\<bar>d\<bar> \<le> 2 ^ 63"
  shows
    "toEulerAngle \<lparr>q0 = 1, q1 = 0, q2 = 0, q3 = 0\<rparr> = \<lparr>vec_x = 0, vec_y = 0, vec_z = 0\<rparr> \<and>
     toEulerAngle_x_ieee \<lparr>q0 = Finite 1, q1 = Finite 0, q2 = Finite 0, q3 = Finite 0\<rparr> = Finite 0 \<and>
     toEulerAngle_t2_ieee \<lparr>q0 = Finite a, q1 = Finite b, q2 = Finite c, q3 = Finite d\<rparr> =
       Finite (max (- 1) (min 1 (- 2 * (b * d - a * c)))) \<and>
     toEulerAngle_t2_ieee \<lparr>q0 = Finite a, q1 = Finite b, q2 = Finite c, q3 = Finite d\<rparr> =
       Finite (toEulerAngle_t2 \<lparr>q0 = a, q1 = b, q2 = c, q3 = d\<rparr>) \<and>
     - 1 \<le> toEulerAngle_t2 \<lparr>q0 = a, q1 = b, q2 = c, q3 = d\<rparr> \<and>
     toEulerAngle_t2 \<lparr>q0 = a, q1 = b, q2 = c, q3 = d\<rparr> \<le> 1 \<and>
     toEulerAngle_x_ieee \<lparr>q0 = Finite a, q1 = Finite b, q2 = Finite c, q3 = Finite d\<rparr> =
       Finite (arcsin (toEulerAngle_t2 \<lparr>q0 = a, q1 = b, q2 = c, q3 = d\<rparr>)) \<and>
     vec_x (toEulerAngle \<lparr>q0 = a, q1 = b, q2 = c, q3 = d\<rparr>) =
       arcsin (toEulerAngle_t2 \<lparr>q0 = a, q1 = b, q2 = c, q3 = d\<rparr>)"
proof -
  let ?q = "\<lparr>q0 = a, q1 = b, q2 = c, q3 = d\<rparr>"
  let ?f = "\<lparr>q0 = Finite a, q1 = Finite b, q2 = Finite c, q3 = Finite d\<rparr>"
  have id: "toEulerAngle \<lparr>q0 = 1, q1 = 0, q2 = 0, q3 = 0\<rparr> = \<lparr>vec_x = 0, vec_y = 0, vec_z = 0\<rparr>"
    by (simp add: toEulerAngle_def toEulerAngle_t2_def atan2_def Let_def)
  have idf: "toEulerAngle_x_ieee \<lparr>q0 = Finite 1, q1 = Finite 0, q2 = Finite 0, q3 = Finite 0\<rparr> = Finite 0"
    by (simp add: toEulerAngle_x_ieee_def toEulerAngle_t2_ieee_def ieee_lt_def deliver_def
        FLT_LIMIT_def DBL_LIMIT_def Let_def)
  have bd: "\<bar>b * d\<bar> \<le> 2 ^ 126" using assms(2,4) by (rule product_bound)
  have ac: "\<bar>a * c\<bar> \<le> 2 ^ 126" using assms(1,3) by (rule product_bound)
  have diff: "\<bar>b * d - a * c\<bar> \<le> 2 ^ 127" using bd ac by simp
  have dbl: "\<bar>- 2 * (b * d - a * c)\<bar> \<le> 2 ^ 128" using diff by (simp add: abs_mult)
  have m1: "ieee_mul FLT_LIMIT (Finite b) (Finite d) = Finite (b * d)"
    using bd limits_large(1) by (simp add: deliver_Finite)
  have m2: "ieee_mul FLT_LIMIT (Finite a) (Finite c) = Finite (a * c)"
    using ac limits_large(1) by (simp add: deliver_Finite)
  have s: "ieee_sub FLT_LIMIT (Finite (b * d)) (Finite (a * c)) = Finite (b * d - a * c)"
    using diff limits_large(1) by (simp add: deliver_Finite)
  have m3: "ieee_mul DBL_LIMIT (Finite (- 2)) (Finite (b * d - a * c)) =
      Finite (- 2 * (b * d - a * c))"
    using dbl limits_large(2) by (simp add: deliver_Finite)
  have t2: "toEulerAngle_t2_ieee ?f = Finite (max (- 1) (min 1 (- 2 * (b * d - a * c))))"
proof -
    have "ieee_mul DBL_LIMIT (Finite (- 2.0))
            (ieee_sub FLT_LIMIT (ieee_mul FLT_LIMIT (Finite b) (Finite d))
               (ieee_mul FLT_LIMIT (Finite a) (Finite c))) =
          Finite (- 2 * (b * d - a * c))"
      unfolding m1 m2 s using m3 by simp
    then show ?thesis
      by (simp add: toEulerAngle_t2_ieee_def Let_def ieee_lt_def max_def min_def
          del: ieee_mul.simps ieee_sub.simps)
  qed
  have ex: "toEulerAngle_t2 ?q = max (- 1) (min 1 (- 2 * (b * d - a * c)))"
    using toEulerAngle_t2_exact(1) [of ?q] by simp
  have dom: "- 1 \<le> toEulerAngle_t2 ?q" "toEulerAngle_t2 ?q \<le> 1"
    by (rule toEulerAngle_t2_exact)+
  have t2': "toEulerAngle_t2_ieee ?f = Finite (toEulerAngle_t2 ?q)"
    using t2 ex by simp
  have "\<bar>arcsin (toEulerAngle_t2 ?q)\<bar> \<le> pi / 2"
    using arcsin_bounded [OF dom] by linarith
  moreover have "pi / 2 < 2" using pi_less_4 by simp
  moreover have "(2::real) < 2 ^ 127" by simp
  ultimately have "\<bar>arcsin (toEulerAngle_t2 ?q)\<bar> < FLT_LIMIT"
    using limits_large(1) by linarith
  then have x: "toEulerAngle_x_ieee ?f = Finite (arcsin (toEulerAngle_t2 ?q))"
    using dom by (simp add: toEulerAngle_x_ieee_def t2' deliver_Finite)
  have vx: "vec_x (toEulerAngle ?q) = arcsin (toEulerAngle_t2 ?q)"
    by (simp add: toEulerAngle_def Let_def)
  show ?thesis using id idf t2 t2' dom x vx by blast
qed

text \<open>
  The unit quaternion \<open>(1/2, -1/2, 1/2, 1/2)\<close> gives \<open>t2 = 1\<close> and the pitch \<open>\<pi>/2\<close>.
\<close>

theorem toEulerAngle_identity_and_clamp_witness:
  "\<bar>1 / 2 :: real\<bar> \<le> 2 ^ 63 \<and> \<bar>- (1 / 2) :: real\<bar> \<le> 2 ^ 63 \<and>
   toEulerAngle_t2_ieee
     \<lparr>q0 = Finite (1 / 2), q1 = Finite (- (1 / 2)), q2 = Finite (1 / 2), q3 = Finite (1 / 2)\<rparr> =
     Finite 1 \<and>
   toEulerAngle_x_ieee
     \<lparr>q0 = Finite (1 / 2), q1 = Finite (- (1 / 2)), q2 = Finite (1 / 2), q3 = Finite (1 / 2)\<rparr> =
     Finite (pi / 2)"
proof -
  have h: "\<bar>1 / 2 :: real\<bar> \<le> 2 ^ 63" "\<bar>- (1 / 2) :: real\<bar> \<le> 2 ^ 63"
    by simp_all
  have v: "toEulerAngle_t2 \<lparr>q0 = 1 / 2, q1 = - (1 / 2), q2 = 1 / 2, q3 = 1 / 2\<rparr> = 1"
    by (simp add: toEulerAngle_t2_def Let_def)
  from toEulerAngle_identity_and_clamp [OF h(1) h(2) h(1) h(1)]
  have "toEulerAngle_t2_ieee
     \<lparr>q0 = Finite (1 / 2), q1 = Finite (- (1 / 2)), q2 = Finite (1 / 2), q3 = Finite (1 / 2)\<rparr> =
     Finite (toEulerAngle_t2 \<lparr>q0 = 1 / 2, q1 = - (1 / 2), q2 = 1 / 2, q3 = 1 / 2\<rparr>)"
    "toEulerAngle_x_ieee
     \<lparr>q0 = Finite (1 / 2), q1 = Finite (- (1 / 2)), q2 = Finite (1 / 2), q3 = Finite (1 / 2)\<rparr> =
     Finite (arcsin (toEulerAngle_t2 \<lparr>q0 = 1 / 2, q1 = - (1 / 2), q2 = 1 / 2, q3 = 1 / 2\<rparr>))"
    by blast+
  then show ?thesis using h unfolding v by simp
qed

text \<open>
  C8 as stated fails. With all four components \<open>2 ^ 64\<close>, a finite single precision
  value, both products are \<open>2 ^ 128\<close> and overflow to infinity, their difference is NaN,
  NaN fails both comparisons of the clamp, and \<^verbatim>\<open>asin\<close> is applied to NaN. The same
  happens when a component is NaN.
\<close>

theorem toEulerAngle_overflow_gives_nan:
  "toEulerAngle_t2_ieee
     \<lparr>q0 = Finite (2 ^ 64), q1 = Finite (2 ^ 64), q2 = Finite (2 ^ 64), q3 = Finite (2 ^ 64)\<rparr> = NaN \<and>
   toEulerAngle_x_ieee
     \<lparr>q0 = Finite (2 ^ 64), q1 = Finite (2 ^ 64), q2 = Finite (2 ^ 64), q3 = Finite (2 ^ 64)\<rparr> = NaN \<and>
   toEulerAngle_t2_ieee \<lparr>q0 = NaN, q1 = Finite 0, q2 = Finite 0, q3 = Finite 0\<rparr> = NaN \<and>
   toEulerAngle_x_ieee \<lparr>q0 = NaN, q1 = Finite 0, q2 = Finite 0, q3 = Finite 0\<rparr> = NaN"
  by (simp add: toEulerAngle_x_ieee_def toEulerAngle_t2_ieee_def ieee_lt_def deliver_def
      FLT_LIMIT_def DBL_LIMIT_def Let_def)

section \<open>Yaw units\<close>

lemma move_trace_shape:
  assumes "subscribe_verify (vehicle args) responseTimeout = SUCCESS"
    and "subscribe_initPackageFromTopicList (vehicle args)"
    and "subscribe_startPackage (vehicle args) responseTimeout = SUCCESS"
  shows "\<exists>m. snd (moveByPositionOffset args) =
       trace ((control_step args ^^ m) (initial_state args)) @
       replicate 50 EmergencyBrake @
       (if fst (moveByPositionOffset args) = ReturnAck FAIL then [Print ''Task timeout!''] else []) @
       removePackage_checked (vehicle args) responseTimeout"
proof -
  let ?sf = "control_loop args (initial_state args)"
  obtain m where m: "?sf = (control_step args ^^ m) (initial_state args)"
    using control_loop_from_start [of args] by blast
  have bc: "brakeCounter ?sf = 20 * int 0"
    using m by (simp add: brakeCounter_funpow initial_state_fields)
  have br: "trace (brake_loop ?sf) = trace ?sf @ replicate 50 EmergencyBrake"
    using brake_loop_run [OF bc] by simp
  have "snd (moveByPositionOffset args) =
       trace ?sf @ replicate 50 EmergencyBrake @
       (if fst (moveByPositionOffset args) = ReturnAck FAIL then [Print ''Task timeout!''] else []) @
       removePackage_checked (vehicle args) responseTimeout"
    using move_after_start [OF assms] br by (simp add: move_finish_def Let_def)
  then show ?thesis using m by auto
qed

lemma loop_trace_yaw:
  "PositionAndYawCtrl x y z w \<in> set (trace ((control_step args ^^ m) (initial_state args))) \<Longrightarrow>
   w = yawDesiredRad args / DEG2RAD args"
  by (induction m) (auto simp: control_step_fields initial_state_fields)

lemma move_trace_yaw:
  "PositionAndYawCtrl x y z w \<in> set (snd (moveByPositionOffset args)) \<Longrightarrow>
   w = yawDesiredRad args / DEG2RAD args"
proof (cases "subscribe_verify (vehicle args) responseTimeout = SUCCESS \<and>
    subscribe_initPackageFromTopicList (vehicle args) \<and>
    subscribe_startPackage (vehicle args) responseTimeout = SUCCESS")
  case True
  assume mem: "PositionAndYawCtrl x y z w \<in> set (snd (moveByPositionOffset args))"
  from True move_trace_shape [of args]
  obtain m where "snd (moveByPositionOffset args) =
       trace ((control_step args ^^ m) (initial_state args)) @
       replicate 50 EmergencyBrake @
       (if fst (moveByPositionOffset args) = ReturnAck FAIL then [Print ''Task timeout!''] else []) @
       removePackage_checked (vehicle args) responseTimeout"
    by blast
  then have "PositionAndYawCtrl x y z w \<in> set (trace ((control_step args ^^ m) (initial_state args)))"
    using mem by (auto simp: removePackage_checked_def split: if_splits)
  then show ?thesis by (rule loop_trace_yaw)
next
  case False
  assume "PositionAndYawCtrl x y z w \<in> set (snd (moveByPositionOffset args))"
  then show ?thesis using False
    by (auto simp: moveByPositionOffset_def split: if_splits)
qed

text \<open>
  C9, as amended. The two degree inputs are converted to radians once, before the loop.
  When \<^verbatim>\<open>DEG2RAD\<close> is not zero, the yaw sent with every position command is
  \<open>yawDesiredRad / DEG2RAD\<close>, that is the desired yaw in degrees, as passed in. The
  convergence test of each cycle compares the yaw that \<open>toEulerAngle\<close> gives for the
  current orientation, minus the desired yaw in radians, with the threshold in radians.
\<close>

theorem yaw_units:
  assumes "DEG2RAD args \<noteq> 0"
  shows
    "yawDesiredRad args = DEG2RAD args * yawDesired args \<and>
     yawThresholdInRad args = DEG2RAD args * yawThresholdInDeg args \<and>
     (\<forall>x y z w. PositionAndYawCtrl x y z w \<in> set (snd (moveByPositionOffset args)) \<longrightarrow>
        w = yawDesired args) \<and>
     (\<forall>s. trace (control_step args s) =
        trace s @ [PositionAndYawCtrl (xCmd s) (yCmd s) (zCmd args) (yawDesired args)]) \<and>
     (\<forall>s. yawInRad (fst (control_sense args s)) =
        vec_z (toEulerAngle (TOPIC_QUATERNION (vehicle args) (clock s + 20000)))) \<and>
     (\<forall>s. snd (control_sense args s) =
        (\<bar>fst (offsetRemaining args (clock s + 20000))\<bar> < posThresholdInM args \<and>
         \<bar>fst (snd (offsetRemaining args (clock s + 20000)))\<bar> < posThresholdInM args \<and>
         \<bar>snd (snd (offsetRemaining args (clock s + 20000)))\<bar> < zDeadband \<and>
         \<bar>vec_z (toEulerAngle (TOPIC_QUATERNION (vehicle args) (clock s + 20000)))
            - DEG2RAD args * yawDesired args\<bar>
           < DEG2RAD args * yawThresholdInDeg args))"
proof -
  have deg: "yawDesiredRad args / DEG2RAD args = yawDesired args"
    using assms by (simp add: yawDesiredRad_def)
  have a: "yawDesiredRad args = DEG2RAD args * yawDesired args"
    "yawThresholdInRad args = DEG2RAD args * yawThresholdInDeg args"
    by (simp_all add: yawDesiredRad_def yawThresholdInRad_def)
  have b: "\<forall>x y z w. PositionAndYawCtrl x y z w \<in> set (snd (moveByPositionOffset args)) \<longrightarrow>
        w = yawDesired args"
    using move_trace_yaw [where args = args] deg by auto
  have c: "\<forall>s. trace (control_step args s) =
        trace s @ [PositionAndYawCtrl (xCmd s) (yCmd s) (zCmd args) (yawDesired args)]"
    using deg by (simp add: control_step_fields)
  have d: "\<forall>s. yawInRad (fst (control_sense args s)) =
        vec_z (toEulerAngle (TOPIC_QUATERNION (vehicle args) (clock s + 20000)))"
    by (simp add: control_sense_def Let_def modify_setpoint_def move_consts split: prod.splits)
  have e: "\<forall>s. snd (control_sense args s) =
        (\<bar>fst (offsetRemaining args (clock s + 20000))\<bar> < posThresholdInM args \<and>
         \<bar>fst (snd (offsetRemaining args (clock s + 20000)))\<bar> < posThresholdInM args \<and>
         \<bar>snd (snd (offsetRemaining args (clock s + 20000)))\<bar> < zDeadband \<and>
         \<bar>vec_z (toEulerAngle (TOPIC_QUATERNION (vehicle args) (clock s + 20000)))
            - DEG2RAD args * yawDesired args\<bar>
           < DEG2RAD args * yawThresholdInDeg args)"
    by (simp add: control_sense_test withinBounds_def a split: prod.splits)
  show ?thesis using a b c d e by blast
qed

theorem yaw_units_witness:
  "DEG2RAD stationary_args \<noteq> 0 \<and>
   yawDesiredRad stationary_args = 0.01745329252 * 30 \<and>
   trace (control_step stationary_args (initial_state stationary_args)) =
     [Verify, InitPackageFromTopicList, StartPackage, PositionAndYawCtrl 0 2 6 30] \<and>
   snd (control_sense stationary_args (initial_state stationary_args)) = False"
proof -
  have nz: "DEG2RAD stationary_args \<noteq> 0" by (simp add: stationary_args_def)
  have y: "yawDesired stationary_args = 30" by (simp add: stationary_args_def)
  have i: "xCmd (initial_state stationary_args) = 0" "yCmd (initial_state stationary_args) = 2"
    "zCmd stationary_args = 6"
    "trace (initial_state stationary_args) = [Verify, InitPackageFromTopicList, StartPackage]"
    by (simp_all add: initial_state_def initial_xCmd_def initial_yCmd_def zCmd_def originGPS_def
        speedFactor_def stationary_args_def telemetry_vehicle_def)
  have r: "fst (snd (offsetRemaining stationary_args 1020000)) = 6"
    by (simp add: offsetRemaining_def localOffsetFromGpsOffset_def originGPS_def Let_def
        stationary_args_def telemetry_vehicle_def)
  have p: "posThresholdInM stationary_args = 0.2" by (simp add: stationary_args_def)
  from yaw_units [OF nz]
  have u: "yawDesiredRad stationary_args = DEG2RAD stationary_args * yawDesired stationary_args"
    "trace (control_step stationary_args (initial_state stationary_args)) =
       trace (initial_state stationary_args) @
       [PositionAndYawCtrl (xCmd (initial_state stationary_args))
          (yCmd (initial_state stationary_args)) (zCmd stationary_args)
          (yawDesired stationary_args)]"
    "snd (control_sense stationary_args (initial_state stationary_args)) \<longrightarrow>
       \<bar>fst (snd (offsetRemaining stationary_args
                    (clock (initial_state stationary_args) + 20000)))\<bar>
         < posThresholdInM stationary_args"
    by blast+
  have a: "yawDesiredRad stationary_args = 0.01745329252 * 30"
    using u(1) y by (simp add: stationary_args_def)
  have b: "trace (control_step stationary_args (initial_state stationary_args)) =
     [Verify, InitPackageFromTopicList, StartPackage, PositionAndYawCtrl 0 2 6 30]"
    using u(2) i y by simp
  have c: "snd (control_sense stationary_args (initial_state stationary_args)) = False"
    using u(3) r p by (simp add: initial_state_fields)
  show ?thesis using nz a b c by blast
qed

text \<open>
  C9 as stated fails: with a desired yaw of 30 degrees, which is 0.5235987756 rad, the
  first position command carries the yaw 30.
\<close>

theorem yaw_command_in_degrees:
  "trace (control_step stationary_args (initial_state stationary_args)) =
     [Verify, InitPackageFromTopicList, StartPackage, PositionAndYawCtrl 0 2 6 30] \<and>
   yawDesired stationary_args = 30 \<and>
   yawDesiredRad stationary_args = 0.5235987756"
  by (simp add: control_step_fields initial_state_def initial_xCmd_def initial_yCmd_def
      zCmd_def originGPS_def yawDesiredRad_def speedFactor_def stationary_args_def
      telemetry_vehicle_def)

section \<open>The setpoint update in the loop\<close>

text \<open>
  C10. In each pass through the loop body, the x command becomes the remaining x offset
  (desired offset minus the local offset read in this cycle) if the magnitude of that is
  below \<open>speedFactor = 2\<close>, and otherwise keeps its previous value; the same holds for
  y. Nothing clamps the command towards the goal again.
\<close>

theorem setpoint_update:
  "xCmd (control_step args s) =
     (if \<bar>fst (offsetRemaining args (clock s + 20000))\<bar> < real_of_int speedFactor
      then fst (offsetRemaining args (clock s + 20000)) else xCmd s) \<and>
   yCmd (control_step args s) =
     (if \<bar>fst (snd (offsetRemaining args (clock s + 20000)))\<bar> < real_of_int speedFactor
      then fst (snd (offsetRemaining args (clock s + 20000))) else yCmd s) \<and>
   fst (offsetRemaining args t) =
     xOffsetDesired args -
     vec_x (localOffsetFromGpsOffset (C_EARTH args) (TOPIC_GPS_FUSED (vehicle args) t) (originGPS args)) \<and>
   fst (snd (offsetRemaining args t)) =
     yOffsetDesired args -
     vec_y (localOffsetFromGpsOffset (C_EARTH args) (TOPIC_GPS_FUSED (vehicle args) t) (originGPS args)) \<and>
   speedFactor = 2"
proof -
  have "xCmd (control_step args s) =
     (if \<bar>fst (offsetRemaining args (clock s + 20000))\<bar> < real_of_int speedFactor
      then fst (offsetRemaining args (clock s + 20000)) else xCmd s)"
    by (simp add: control_step_alt reset_if_necessary_fields accumulate_fields
        control_sense_def Let_def modify_setpoint_def move_consts split: prod.splits)
  moreover have "yCmd (control_step args s) =
     (if \<bar>fst (snd (offsetRemaining args (clock s + 20000)))\<bar> < real_of_int speedFactor
      then fst (snd (offsetRemaining args (clock s + 20000))) else yCmd s)"
    by (simp add: control_step_alt reset_if_necessary_fields accumulate_fields
        control_sense_def Let_def modify_setpoint_def move_consts split: prod.splits)
  moreover have "fst (offsetRemaining args t) =
     xOffsetDesired args -
     vec_x (localOffsetFromGpsOffset (C_EARTH args) (TOPIC_GPS_FUSED (vehicle args) t) (originGPS args))"
    "fst (snd (offsetRemaining args t)) =
     yOffsetDesired args -
     vec_y (localOffsetFromGpsOffset (C_EARTH args) (TOPIC_GPS_FUSED (vehicle args) t) (originGPS args))"
    by (simp_all add: offsetRemaining_def Let_def)
  moreover have "speedFactor = 2" by (simp add: speedFactor_def)
  ultimately show ?thesis by blast
qed

text \<open>
  With a goal 5 m north: the vehicle is 4 m north after the first cycle, so the command
  becomes 1; it is back at the start after the second cycle, 5 m from the goal, and the
  command is still 1.
\<close>

theorem setpoint_update_witness:
  "xCmd (initial_state rediverge_args) = 2 \<and>
   fst (offsetRemaining rediverge_args 1020000) = 1 \<and>
   xCmd (control_step rediverge_args (initial_state rediverge_args)) = 1 \<and>
   fst (offsetRemaining rediverge_args 1040000) = 5 \<and>
   xCmd (control_step rediverge_args
          (control_step rediverge_args (initial_state rediverge_args))) = 1"
proof -
  let ?s0 = "initial_state rediverge_args"
  let ?s1 = "control_step rediverge_args ?s0"
  have x0: "xCmd ?s0 = 2"
    by (simp add: initial_state_def initial_xCmd_def speedFactor_def rediverge_args_def)
  have r1: "fst (offsetRemaining rediverge_args 1020000) = 1"
    by (simp add: offsetRemaining_def localOffsetFromGpsOffset_def originGPS_def Let_def
        rediverge_args_def telemetry_vehicle_def)
  have r2: "fst (offsetRemaining rediverge_args 1040000) = 5"
    by (simp add: offsetRemaining_def localOffsetFromGpsOffset_def originGPS_def Let_def
        rediverge_args_def telemetry_vehicle_def)
  have c0: "clock ?s0 + 20000 = 1020000" by (simp add: initial_state_fields)
  have c1: "clock ?s1 + 20000 = 1040000"
    by (simp add: control_step_fields initial_state_fields)
  have x1: "xCmd ?s1 = 1"
    using setpoint_update [of rediverge_args ?s0] unfolding c0 r1
    by (simp add: speedFactor_def)
  have x2: "xCmd (control_step rediverge_args ?s1) = 1"
    using setpoint_update [of rediverge_args ?s1] unfolding c1 r2 x1
    by (simp add: speedFactor_def)
  show ?thesis using x0 r1 x1 r2 x2 by blast
qed

end
